theory Spec2Isabelle
  imports Complex_Main "HOL-Library.Log_Nat"
begin

section \<open>JavaScript numbers\<close>

text \<open>
  A JavaScript \<^verbatim>\<open>number\<close> is an IEEE 754 double. \<open>Fin q\<close> is the finite double with the
  rational value \<open>q\<close>, where \<open>Fin 0\<close> is the positive zero; \<open>NegZero\<close> is the negative zero.
  The doubles are the values \<open>Fin q\<close> for which \<open>to_double q = Fin q\<close>; the operations
  below give a double for every argument.
\<close>

datatype number = Fin rat | NegZero | PosInf | NegInf | NaN

definition zero_of :: "bool \<Rightarrow> number" where
  "zero_of negative = (if negative then NegZero else Fin 0)"

definition inf_of :: "bool \<Rightarrow> number" where
  "inf_of negative = (if negative then NegInf else PosInf)"

text \<open>The sign bit, and the value of a finite number (both zeros have the value 0).\<close>

fun sign_bit :: "number \<Rightarrow> bool" where
  "sign_bit (Fin a) = (a < 0)"
| "sign_bit NegZero = True"
| "sign_bit NegInf = True"
| "sign_bit _ = False"

fun finite_val :: "number \<Rightarrow> rat option" where
  "finite_val (Fin a) = Some a"
| "finite_val NegZero = Some 0"
| "finite_val _ = None"

text \<open>
  Rounding of an exact result to a double, to nearest with ties to even. For \<open>q > 0\<close>,
  \<open>floor_log2 q\<close> is the exponent \<open>e\<close> with \<open>2^e \<le> q < 2^(e + 1)\<close>. A double has 53
  significant bits, so its unit in the last place is \<open>2^(e - 52)\<close>, with the exponent
  not below \<open>-1022\<close> (the subnormal range). A result of magnitude \<open>2^1024\<close> or more is
  an infinity, and one that rounds to zero keeps its sign.
\<close>

definition floor_log2 :: "rat \<Rightarrow> int" where
  "floor_log2 q =
     (let (n, d) = quotient_of q;
          k = bitlen n - bitlen d
      in if 2 powi k \<le> q then k else k - 1)"

definition round_half_even :: "rat \<Rightarrow> int" where
  "round_half_even m =
     (let f = \<lfloor>m\<rfloor>;
          r = m - of_int f
      in if r < 1 / 2 then f
         else if 1 / 2 < r then f + 1
         else if even f then f else f + 1)"

definition to_double :: "rat \<Rightarrow> number" where
  "to_double q =
     (if q = 0 then Fin 0
      else
        (let e = max (- 1022) (floor_log2 \<bar>q\<bar>);
             ulp = 2 powi (e - 52);
             r = round_half_even (q / ulp);
             v = of_int r * ulp
         in if r = 0 then zero_of (q < 0)
            else if 2 powi 1024 \<le> \<bar>v\<bar> then inf_of (q < 0)
            else Fin v))"

text \<open>The arithmetic operators \<^verbatim>\<open>-x\<close>, \<^verbatim>\<open>x + y\<close>, \<^verbatim>\<open>x - y\<close> and \<^verbatim>\<open>x / y\<close>.\<close>

fun num_neg :: "number \<Rightarrow> number" where
  "num_neg (Fin a) = (if a = 0 then NegZero else Fin (- a))"
| "num_neg NegZero = Fin 0"
| "num_neg PosInf = NegInf"
| "num_neg NegInf = PosInf"
| "num_neg NaN = NaN"

fun num_add :: "number \<Rightarrow> number \<Rightarrow> number" where
  "num_add NaN _ = NaN"
| "num_add _ NaN = NaN"
| "num_add PosInf NegInf = NaN"
| "num_add NegInf PosInf = NaN"
| "num_add PosInf _ = PosInf"
| "num_add _ PosInf = PosInf"
| "num_add NegInf _ = NegInf"
| "num_add _ NegInf = NegInf"
| "num_add NegZero NegZero = NegZero"
| "num_add NegZero (Fin b) = to_double b"
| "num_add (Fin a) NegZero = to_double a"
| "num_add (Fin a) (Fin b) = to_double (a + b)"

definition num_sub :: "number \<Rightarrow> number \<Rightarrow> number" where
  "num_sub a b = num_add a (num_neg b)"

definition num_div :: "number \<Rightarrow> number \<Rightarrow> number" where
  "num_div x y =
     (if x = NaN \<or> y = NaN then NaN
      else
        (let negative = (sign_bit x \<noteq> sign_bit y)
         in case (finite_val x, finite_val y) of
              (None, None) \<Rightarrow> NaN
            | (None, Some b) \<Rightarrow> inf_of negative
            | (Some a, None) \<Rightarrow> zero_of negative
            | (Some a, Some b) \<Rightarrow>
                if b = 0 then (if a = 0 then NaN else inf_of negative)
                else if a = 0 then zero_of negative
                else to_double (a / b)))"

text \<open>
  \<^verbatim>\<open>Math.floor\<close>: the zeros and the special values are returned as they are; the floor of
  a double is a double.
\<close>

fun num_floor :: "number \<Rightarrow> number" where
  "num_floor (Fin a) = Fin (of_int \<lfloor>a\<rfloor>)"
| "num_floor x = x"

text \<open>
  The relational operators \<^verbatim>\<open><\<close>, \<^verbatim>\<open>>\<close>, \<^verbatim>\<open>>=\<close> and \<^verbatim>\<open><=\<close>, and the equality \<^verbatim>\<open>===\<close> of numbers.
  Every comparison with \<^verbatim>\<open>NaN\<close> is false, and the two zeros are equal.
\<close>

definition num_lt :: "number \<Rightarrow> number \<Rightarrow> bool" where
  "num_lt x y =
     (x \<noteq> NaN \<and> y \<noteq> NaN \<and>
      (case (finite_val x, finite_val y) of
         (Some a, Some b) \<Rightarrow> a < b
       | (Some a, None) \<Rightarrow> y = PosInf
       | (None, Some b) \<Rightarrow> x = NegInf
       | (None, None) \<Rightarrow> x = NegInf \<and> y = PosInf))"

definition num_gt :: "number \<Rightarrow> number \<Rightarrow> bool" where
  "num_gt a b = num_lt b a"

definition num_ge :: "number \<Rightarrow> number \<Rightarrow> bool" where
  "num_ge a b = (a \<noteq> NaN \<and> b \<noteq> NaN \<and> \<not> num_lt a b)"

definition num_le :: "number \<Rightarrow> number \<Rightarrow> bool" where
  "num_le a b = num_ge b a"

definition num_eq :: "number \<Rightarrow> number \<Rightarrow> bool" where
  "num_eq a b = (num_ge a b \<and> num_ge b a)"

text \<open>Truthiness of a number: the zeros and \<^verbatim>\<open>NaN\<close> are falsy.\<close>

fun truthy :: "number \<Rightarrow> bool" where
  "truthy (Fin a) = (a \<noteq> 0)"
| "truthy NegZero = False"
| "truthy NaN = False"
| "truthy _ = True"

text \<open>
  \<^verbatim>\<open>x | 0\<close> is the conversion \<^verbatim>\<open>ToInt32\<close>: the zeros and the special values give 0, a finite
  value is truncated towards zero and reduced modulo \<open>2^32\<close> into the signed range.
\<close>

definition trunc :: "rat \<Rightarrow> int" where
  "trunc a = (if 0 \<le> a then \<lfloor>a\<rfloor> else \<lceil>a\<rceil>)"

fun toInt32 :: "number \<Rightarrow> int" where
  "toInt32 (Fin a) =
     (let r = trunc a mod 4294967296 in if 2147483648 \<le> r then r - 4294967296 else r)"
| "toInt32 _ = 0"

section \<open>The heatmap track (helpers/track.ts)\<close>

text \<open>
  The fields of class \<^verbatim>\<open>Track\<close>. The two arrays are made by \<^verbatim>\<open>new Array(laneCount)\<close>, so
  an entry can be a hole: reading it gives \<^verbatim>\<open>undefined\<close>, here \<open>None\<close>.
\<close>

record track =
  laneSizes :: "number option list"
  laneStarts :: "number option list"
  trackSize :: number
  margin :: number

text \<open>The state of a freshly constructed \<^verbatim>\<open>Track\<close> (the field initialisers).\<close>

definition new_track :: track where
  "new_track = \<lparr>laneSizes = [], laneStarts = [Some (Fin 0)], trackSize = Fin 0,
     margin = Fin (1 / 2)\<rparr>"

definition laneCount :: "track \<Rightarrow> nat" where
  "laneCount t = length (laneSizes t)"

text \<open>
  \<^verbatim>\<open>array[index]\<close> with a number as index: an entry when the number is an integer
  inside the array (either zero is the index 0), \<^verbatim>\<open>undefined\<close> otherwise.
\<close>

fun js_index :: "'a option list \<Rightarrow> number \<Rightarrow> 'a option" where
  "js_index xs (Fin q) =
     (if of_int \<lfloor>q\<rfloor> = q \<and> 0 \<le> q \<and> nat \<lfloor>q\<rfloor> < length xs then xs ! nat \<lfloor>q\<rfloor> else None)"
| "js_index xs NegZero = (if 0 < length xs then xs ! 0 else None)"
| "js_index xs _ = None"

text \<open>\<^verbatim>\<open>x || 0\<close> for \<^verbatim>\<open>x\<close> a number or \<^verbatim>\<open>undefined\<close>.\<close>

fun or_zero :: "number option \<Rightarrow> number" where
  "or_zero None = Fin 0"
| "or_zero (Some v) = (if truthy v then v else Fin 0)"

definition getLaneSize :: "track \<Rightarrow> number \<Rightarrow> number" where
  "getLaneSize t index = or_zero (js_index (laneSizes t) index)"

definition getLaneStart :: "track \<Rightarrow> number \<Rightarrow> number" where
  "getLaneStart t index = or_zero (js_index (laneStarts t) index)"

definition getLaneEnd :: "track \<Rightarrow> number \<Rightarrow> number" where
  "getLaneEnd t index = num_add (getLaneStart t index) (getLaneSize t index)"

definition getContentSize :: "track \<Rightarrow> number \<Rightarrow> number" where
  "getContentSize t index =
     (let contentSize = num_sub (num_sub (getLaneSize t index) (margin t)) (margin t)
      in if num_gt contentSize (Fin 0) then contentSize else Fin 0)"

definition getContentStart :: "track \<Rightarrow> number \<Rightarrow> number" where
  "getContentStart t index = num_add (getLaneStart t index) (margin t)"

definition getContentEnd :: "track \<Rightarrow> number \<Rightarrow> number" where
  "getContentEnd t index = num_add (getContentStart t index) (getContentSize t index)"

definition hitTest :: "track \<Rightarrow> number \<Rightarrow> number" where
  "hitTest t mousePixel =
     (let laneSize = num_div (trackSize t) (Fin (of_nat (laneCount t)));
          index = num_floor (num_div mousePixel laneSize)
      in if num_ge index (Fin 0) \<and> num_lt index (Fin (of_nat (laneCount t)))
         then (if num_lt mousePixel (getContentStart t index)
                  \<or> num_ge mousePixel (getContentEnd t index)
               then Fin (- 1) else index)
         else Fin (- 1))"

text \<open>
  \<^verbatim>\<open>init\<close>: the loop over the lanes, with the running \<^verbatim>\<open>start\<close>. It returns the entries
  of \<^verbatim>\<open>_laneStarts\<close> and \<^verbatim>\<open>_laneSizes\<close> for the \<open>k\<close> lanes that are left.
\<close>

fun init_lanes :: "nat \<Rightarrow> number \<Rightarrow> number \<Rightarrow> (int \<times> int) list" where
  "init_lanes 0 start laneSize = []"
| "init_lanes (Suc k) start laneSize =
     (let end' = num_add start laneSize
      in (toInt32 start, toInt32 end' - toInt32 start) # init_lanes k end' laneSize)"

text \<open>
  \<^verbatim>\<open>init(trackSize, laneCount)\<close>. \<^verbatim>\<open>new Array(laneCount)\<close> raises a RangeError unless
  \<^verbatim>\<open>laneCount\<close> is an integer in \<open>0 .. 2^32 - 1\<close>; the result is \<open>None\<close> then. The
  assignment \<^verbatim>\<open>_laneStarts[0] = 0\<close> extends an empty array to length one.
\<close>

definition array_length :: "number \<Rightarrow> nat option" where
  "array_length n =
     (case finite_val n of
        None \<Rightarrow> None
      | Some q \<Rightarrow> if of_int \<lfloor>q\<rfloor> = q \<and> 0 \<le> q \<and> q < 4294967296 then Some (nat \<lfloor>q\<rfloor>) else None)"

definition init :: "track \<Rightarrow> number \<Rightarrow> number \<Rightarrow> track option" where
  "init t trackSize' laneCount' =
     (case array_length laneCount' of
        None \<Rightarrow> None
      | Some n \<Rightarrow>
          (let sizes0 = replicate n None;
               starts0 = (if n = 0 then [Some (Fin 0)] else (replicate n None)[0 := Some (Fin 0)])
           in if truthy trackSize' \<and> truthy laneCount' then
                (let lanes = init_lanes n (Fin 0) (num_div trackSize' laneCount')
                 in Some (t\<lparr>trackSize := trackSize',
                      laneSizes := map (\<lambda>l. Some (Fin (of_int (snd l)))) lanes,
                      laneStarts := map (\<lambda>l. Some (Fin (of_int (fst l)))) lanes\<rparr>))
              else Some (t\<lparr>trackSize := trackSize', laneSizes := sizes0, laneStarts := starts0\<rparr>)))"

text \<open>The setter of \<^verbatim>\<open>margin\<close>.\<close>

definition set_margin :: "track \<Rightarrow> number \<Rightarrow> track" where
  "set_margin t v = t\<lparr>margin := v\<rparr>"

section \<open>Tap events (events/TapEvent.ts)\<close>

subsection \<open>Event targets and native events\<close>

text \<open>
  An \<^verbatim>\<open>EventTarget\<close> is an object; \<open>ident\<close> is its identity, so that the strict equality
  \<^verbatim>\<open>===\<close> of two targets is equality of the records. \<open>nodeType\<close> is the property the
  mouseup listener reads (\<open>None\<close> for a target that is not a node, such as the window,
  where the property is \<^verbatim>\<open>undefined\<close>), and \<open>isHTMLElement\<close> is
  \<^verbatim>\<open>instanceof HTMLElement\<close>.
\<close>

record eventTarget =
  ident :: nat
  nodeType :: "nat option"
  isHTMLElement :: bool

definition ELEMENT_NODE :: nat where
  "ELEMENT_NODE = 1"

record positions =
  pageX :: number
  pageY :: number
  screenX :: number
  screenY :: number
  clientX :: number
  clientY :: number

record metaKeys =
  altKey :: bool
  ctrlKey :: bool
  metaKey :: bool
  shiftKey :: bool

text \<open>
  The native events, with the fields the listeners read. \<open>composedPath\<close> is the result
  of \<^verbatim>\<open>event.composedPath()\<close>, innermost target first. The coordinates and the modifier
  keys of a mouse event are grouped in \<open>coords\<close> and \<open>keys\<close>; \<open>isPointerEvent\<close> is
  \<^verbatim>\<open>event instanceof PointerEvent\<close>. \<open>changedTouches\<close> is \<open>None\<close> for an event of a touch type
  that has no such property (an event that is not a \<^verbatim>\<open>TouchEvent\<close>): reading its first
  entry raises.
\<close>

record event =
  target :: "eventTarget option"
  composedPath :: "eventTarget list"

record mouseEvent = event +
  coords :: positions
  keys :: metaKeys
  detail :: int
  isPointerEvent :: bool

record touch =
  touch_identifier :: int
  touchCoords :: positions

record touchEvent = event +
  changedTouches :: "touch list option"

record keyboardEvent = event +
  key :: string

text \<open>The argument \<^verbatim>\<open>info: MouseEvent | Touch\<close> of the dispatch routine.\<close>

datatype info = MouseInfo mouseEvent | TouchInfo touch

fun info_coords :: "info \<Rightarrow> positions" where
  "info_coords (MouseInfo e) = coords e"
| "info_coords (TouchInfo t) = touchCoords t"

subsection \<open>The synthetic event\<close>

text \<open>
  Class \<^verbatim>\<open>TapEvent\<close>: the type, the ten public fields (grouped as for a mouse event) and
  the three entries of the \<^verbatim>\<open>EventInit\<close> dictionary.
\<close>

record tapEvent =
  tapType :: string
  tapCoords :: positions
  tapKeys :: metaKeys
  bubbles :: bool
  composed :: bool
  cancelable :: bool

text \<open>The module variables \<^verbatim>\<open>positions\<close> and \<^verbatim>\<open>metaKeys\<close>, \<^verbatim>\<open>undefined\<close> at first.\<close>

record globals =
  positions :: "positions option"
  metaKeys :: "metaKeys option"

definition new_globals :: globals where
  "new_globals = \<lparr>positions = None, metaKeys = None\<rparr>"

definition zero_positions :: positions where
  "zero_positions = \<lparr>pageX = Fin 0, pageY = Fin 0, screenX = Fin 0, screenY = Fin 0,
     clientX = Fin 0, clientY = Fin 0\<rparr>"

definition no_keys :: metaKeys where
  "no_keys = \<lparr>altKey = False, ctrlKey = False, metaKey = False, shiftKey = False\<rparr>"

text \<open>The constructor of \<^verbatim>\<open>TapEvent\<close>, reading the module variables.\<close>

definition new_TapEvent :: "string \<Rightarrow> bool \<Rightarrow> bool \<Rightarrow> bool \<Rightarrow> globals \<Rightarrow> tapEvent" where
  "new_TapEvent type b c k g =
     \<lparr>tapType = type,
      tapCoords = (case positions g of Some p \<Rightarrow> p | None \<Rightarrow> zero_positions),
      tapKeys = (case metaKeys g of Some m \<Rightarrow> m | None \<Rightarrow> no_keys),
      bubbles = b, composed = c, cancelable = k\<rparr>"

subsection \<open>The environment of the listeners\<close>

text \<open>
  What the module takes from outside itself:
  \<^item> \<open>isIE\<close>: the user agent test at the head of the module;
  \<^item> \<open>matches\<close>: the imported helper \<^verbatim>\<open>matches(element, selector)\<close>;
  \<^item> \<open>prevents\<close>: the listeners of the page for the synthetic events, as far as the
    module observes them: \<open>prevents t e\<close> is the value of \<^verbatim>\<open>tapEvent.defaultPrevented\<close>
    after \<^verbatim>\<open>t.dispatchEvent(e)\<close>. \<^verbatim>\<open>dispatchEvent\<close> reports an exception of a listener and
    does not raise it, and the listeners are taken not to feed native events back during
    the dispatch;
  \<^item> \<open>click\<close>: the click event that the platform's \<^verbatim>\<open>element.click()\<close> fires at the element.
\<close>

record env =
  isIE :: bool
  matches :: "eventTarget \<Rightarrow> string \<Rightarrow> bool"
  prevents :: "eventTarget \<Rightarrow> tapEvent \<Rightarrow> bool"
  click :: "eventTarget \<Rightarrow> mouseEvent"

subsection \<open>Effects and outcomes\<close>

text \<open>
  What a listener does that can be seen from outside, in order: \<open>Called\<close> records a call
  of the dispatch routine with its type and target (\<open>None\<close> for \<^verbatim>\<open>undefined\<close>),
  \<open>Dispatched\<close> a \<^verbatim>\<open>target.dispatchEvent(tapEvent)\<close>, \<open>PreventedMouse\<close> and \<open>PreventedKey\<close> a
  \<^verbatim>\<open>preventDefault()\<close> on a native mouse or keyboard event. An outcome holds the module
  variables afterwards, the effects, and whether an exception left the listener.
\<close>

datatype effect =
    Called string "eventTarget option"
  | Dispatched eventTarget tapEvent
  | PreventedMouse mouseEvent
  | PreventedKey keyboardEvent

record outcome =
  glob :: globals
  effects :: "effect list"
  thrown :: bool

definition skip :: "globals \<Rightarrow> outcome" where
  "skip g = \<lparr>glob = g, effects = [], thrown = False\<rparr>"

text \<open>Sequencing: the second step runs unless the first one raised.\<close>

definition seq :: "outcome \<Rightarrow> (globals \<Rightarrow> outcome) \<Rightarrow> outcome" where
  "seq a f =
     (if thrown a then a
      else (let b = f (glob a) in \<lparr>glob = glob b, effects = effects a @ effects b, thrown = thrown b\<rparr>))"

text \<open>
  \<^verbatim>\<open>dispatchTapOnTarget\<close>. Destructuring an \<^verbatim>\<open>undefined\<close> \<^verbatim>\<open>info\<close> raises a TypeError before
  anything is assigned; calling \<^verbatim>\<open>dispatchEvent\<close> on an \<^verbatim>\<open>undefined\<close> target raises one after
  the module variables are set. \<^verbatim>\<open>info instanceof Event\<close> holds for a mouse event and not
  for a \<^verbatim>\<open>Touch\<close>.
\<close>

definition dispatchTapOnTarget ::
  "env \<Rightarrow> string \<Rightarrow> eventTarget option \<Rightarrow> info option \<Rightarrow> globals \<Rightarrow> outcome" where
  "dispatchTapOnTarget E type tgt src g =
     (case src of
        None \<Rightarrow> \<lparr>glob = g, effects = [Called type tgt], thrown = True\<rparr>
      | Some i \<Rightarrow>
          (let g1 = \<lparr>positions = Some (info_coords i),
                     metaKeys = (case i of MouseInfo e \<Rightarrow> Some (keys e) | TouchInfo _ \<Rightarrow> None)\<rparr>;
               tapEvent = new_TapEvent type True True True g1
           in case tgt of
                None \<Rightarrow> \<lparr>glob = g1, effects = [Called type None], thrown = True\<rparr>
              | Some t \<Rightarrow>
                  \<lparr>glob = g1,
                   effects = [Called type (Some t), Dispatched t tapEvent] @
                     (case i of
                        MouseInfo e \<Rightarrow> if prevents E t tapEvent then [PreventedMouse e] else []
                      | TouchInfo _ \<Rightarrow> []),
                   thrown = False\<rparr>))"

subsection \<open>The state of an installation\<close>

text \<open>
  The variables that the listeners of one call of \<^verbatim>\<open>applyEvent\<close> close over: the three
  capability flags, fixed at installation, and the five mutable variables.
\<close>

record tracker =
  onTap :: bool
  onTapEnd :: bool
  onTapStart :: bool
  startTouch :: "touch option"
  currentTouch :: int
  lastTapTarget :: "eventTarget option"
  mouseEventPath :: "eventTarget list"
  touchEventPath :: "eventTarget list"

definition new_tracker :: "bool \<Rightarrow> bool \<Rightarrow> bool \<Rightarrow> tracker" where
  "new_tracker tap tapEnd tapStart =
     \<lparr>onTap = tap, onTapEnd = tapEnd, onTapStart = tapStart, startTouch = None,
      currentTouch = - 1, lastTapTarget = None, mouseEventPath = [], touchEventPath = []\<rparr>"

subsection \<open>Path reconciliation\<close>

text \<open>
  \<^verbatim>\<open>xs[i]\<close> on an array: \<^verbatim>\<open>undefined\<close> outside the array. \<^verbatim>\<open>xs.splice(0, k)\<close> removes the
  first \<open>k\<close> entries, which is \<^term>\<open>drop k xs\<close>.
\<close>

definition elem_at :: "'a list \<Rightarrow> nat \<Rightarrow> 'a option" where
  "elem_at xs i = (if i < length xs then Some (xs ! i) else None)"

text \<open>
  The two branches at the head of the mouseup listener; the result is the stored path
  and the current path afterwards (both arrays are changed in place).
\<close>

definition reconcile_mouse ::
  "eventTarget list \<Rightarrow> eventTarget list \<Rightarrow> eventTarget list \<times> eventTarget list" where
  "reconcile_mouse stored path =
     (if length stored < length path then (stored, drop (length path - length stored) path)
      else if length stored > length path then (drop (length stored - length path) stored, path)
      else (stored, path))"

text \<open>The single branch of the touchend listener.\<close>

definition reconcile_touch ::
  "eventTarget list \<Rightarrow> eventTarget list \<Rightarrow> eventTarget list \<times> eventTarget list" where
  "reconcile_touch stored path =
     (if length stored < length path then (stored, drop (length path - length stored) path)
      else (stored, path))"

text \<open>
  The \<^verbatim>\<open>for\<close> loop of the mouseup listener, from index \<open>i\<close>: the result is the target of the
  \<^verbatim>\<open>tap\<close>, if the loop reaches its \<^verbatim>\<open>break\<close>. The second conjunct of the test is only
  evaluated when the first holds, so \<^verbatim>\<open>path[i]\<close> is an object there.
\<close>

function tapLoop :: "nat \<Rightarrow> eventTarget list \<Rightarrow> eventTarget list \<Rightarrow> eventTarget option" where
  "tapLoop i stored path =
     (if int i < int (length stored) - 1 then
        (if elem_at stored i = elem_at path i
            \<and> (case elem_at path i of Some n \<Rightarrow> nodeType n = Some ELEMENT_NODE | None \<Rightarrow> False)
         then elem_at stored i
         else tapLoop (i + 1) stored path)
      else None)"
  by pat_completeness auto
termination
  by (relation "measure (\<lambda>(i, stored, path). length stored - i)") auto

subsection \<open>The listeners\<close>

definition on_mousedown :: "env \<Rightarrow> tracker \<Rightarrow> globals \<Rightarrow> mouseEvent \<Rightarrow> tracker \<times> outcome" where
  "on_mousedown E tr g ev =
     (if lastTapTarget tr = None \<and> target ev \<noteq> None \<and> currentTouch tr = - 1 then
        (let tr1 = tr\<lparr>mouseEventPath := composedPath ev\<rparr>
         in case mouseEventPath tr1 of
              [] \<Rightarrow> (tr1, skip g)
            | tapTarget # _ \<Rightarrow>
                (tr1, if onTapStart tr
                      then dispatchTapOnTarget E ''tapstart'' (Some tapTarget) (Some (MouseInfo ev)) g
                      else skip g))
      else (tr, skip g))"

definition on_mouseup :: "env \<Rightarrow> tracker \<Rightarrow> globals \<Rightarrow> mouseEvent \<Rightarrow> tracker \<times> outcome" where
  "on_mouseup E tr g ev =
     (if lastTapTarget tr \<noteq> None then (tr\<lparr>lastTapTarget := None\<rparr>, skip g)
      else
        (let path = composedPath ev;
             a = (case path of
                    [] \<Rightarrow> skip g
                  | tapEndTarget # _ \<Rightarrow>
                      if onTapEnd tr
                      then dispatchTapOnTarget E ''tapend'' (Some tapEndTarget) (Some (MouseInfo ev)) g
                      else skip g)
         in if \<not> onTap tr then (tr, a)
            else
              (let (stored', path') = reconcile_mouse (mouseEventPath tr) path;
                   tr1 = tr\<lparr>mouseEventPath := stored'\<rparr>
               in case tapLoop 0 stored' path' of
                    None \<Rightarrow> (tr1, a)
                  | Some tapTarget \<Rightarrow>
                      (tr1, seq a (dispatchTapOnTarget E ''tap'' (Some tapTarget) (Some (MouseInfo ev)))))))"

text \<open>
  The touchstart listener is not guarded: without \<^verbatim>\<open>changedTouches\<close> its first statement
  raises; with an empty \<^verbatim>\<open>changedTouches\<close> the variable \<^verbatim>\<open>startTouch\<close> becomes \<^verbatim>\<open>undefined\<close> and
  reading its identifier raises.
\<close>

definition on_touchstart :: "env \<Rightarrow> tracker \<Rightarrow> globals \<Rightarrow> touchEvent \<Rightarrow> tracker \<times> outcome" where
  "on_touchstart E tr g ev =
     (case changedTouches ev of
        None \<Rightarrow> (tr, (skip g)\<lparr>thrown := True\<rparr>)
      | Some touches \<Rightarrow>
          (case touches of
             [] \<Rightarrow> (tr\<lparr>startTouch := None\<rparr>, (skip g)\<lparr>thrown := True\<rparr>)
           | t # _ \<Rightarrow>
               (let tr1 = tr\<lparr>startTouch := Some t, currentTouch := touch_identifier t,
                            touchEventPath := composedPath ev\<rparr>
                in case touchEventPath tr1 of
                     [] \<Rightarrow> (tr1, skip g)
                   | tapTarget # _ \<Rightarrow>
                       (tr1, if onTapStart tr
                             then dispatchTapOnTarget E ''tapstart'' (Some tapTarget)
                                    (Some (TouchInfo t)) g
                             else skip g))))"

definition on_touchmove :: "env \<Rightarrow> tracker \<Rightarrow> globals \<Rightarrow> touchEvent \<Rightarrow> tracker \<times> outcome" where
  "on_touchmove E tr g ev = (tr\<lparr>currentTouch := - 1\<rparr>, skip g)"

text \<open>
  The touchend listener: a \<^verbatim>\<open>try\<close> block with a \<^verbatim>\<open>finally\<close> clause and no \<^verbatim>\<open>catch\<close>. The
  clause is \<open>cleanup\<close>; it runs on every way out, and an exception raised in the block
  leaves the listener after it. Without \<^verbatim>\<open>changedTouches\<close> the first statement of the block
  raises. With an empty \<^verbatim>\<open>changedTouches\<close> the variable \<^verbatim>\<open>touch\<close> is \<^verbatim>\<open>undefined\<close>: the dispatch
  of \<^verbatim>\<open>tapend\<close> raises on it, and so does the read of \<^verbatim>\<open>touch.identifier\<close> when \<^verbatim>\<open>tapTarget\<close>
  is there.
\<close>

definition cleanup :: "tracker \<Rightarrow> tracker" where
  "cleanup tr = tr\<lparr>currentTouch := - 1\<rparr>"

definition on_touchend :: "env \<Rightarrow> tracker \<Rightarrow> globals \<Rightarrow> touchEvent \<Rightarrow> tracker \<times> outcome" where
  "on_touchend E tr g ev =
     (case changedTouches ev of
        None \<Rightarrow> (cleanup tr, (skip g)\<lparr>thrown := True\<rparr>)
      | Some touches \<Rightarrow>
          (let touch = (case touches of [] \<Rightarrow> None | t # _ \<Rightarrow> Some t);
               (stored', path) = reconcile_touch (touchEventPath tr) (composedPath ev)
           in case path of
                [] \<Rightarrow> (cleanup tr, skip g)
              | tapTarget # _ \<Rightarrow>
                  (let a = (if onTapEnd tr
                            then dispatchTapOnTarget E ''tapend'' (Some tapTarget)
                                   (map_option TouchInfo touch) g
                            else skip g)
                   in if thrown a then (cleanup tr, a)
                      else
                        (case touch of
                           None \<Rightarrow> (cleanup tr, a\<lparr>thrown := True\<rparr>)
                         | Some t \<Rightarrow>
                             if touch_identifier t = currentTouch tr then
                               (cleanup (tr\<lparr>lastTapTarget := Some tapTarget\<rparr>),
                                seq a (\<lambda>g'. if onTap tr
                                             then dispatchTapOnTarget E ''tap'' (Some tapTarget)
                                                    (Some (TouchInfo t)) g'
                                             else skip g'))
                             else (cleanup tr, a)))))"

definition isButtonEnterOrSpace :: "env \<Rightarrow> mouseEvent \<Rightarrow> bool" where
  "isButtonEnterOrSpace E ev = (if isIE E \<and> isPointerEvent ev then False else detail ev = 0)"

definition on_click :: "env \<Rightarrow> tracker \<Rightarrow> globals \<Rightarrow> mouseEvent \<Rightarrow> tracker \<times> outcome" where
  "on_click E tr g ev =
     (if isButtonEnterOrSpace E ev then
        (let path = composedPath ev;
             tapTarget = elem_at path 0
         in (tr, if onTap tr
                 then dispatchTapOnTarget E ''tap'' tapTarget (Some (MouseInfo ev)) g
                 else skip g))
      else (tr, skip g))"

subsection \<open>Installation and delivery of native events\<close>

text \<open>
  The installation target (the global object), as far as \<^verbatim>\<open>applyEvent\<close> sees it:
  whether each of the three properties is present (\<^verbatim>\<open>'ontap' in target\<close>; the value is
  \<^verbatim>\<open>null\<close> and never read), and the installations whose listeners have been added, in
  the order of the calls.
\<close>

record globalTarget =
  ontap :: bool
  ontapstart :: bool
  ontapend :: bool
  installed :: "tracker list"

definition fresh_target :: globalTarget where
  "fresh_target = \<lparr>ontap = False, ontapstart = False, ontapend = False, installed = []\<rparr>"

definition applyEvent :: "globalTarget \<Rightarrow> globalTarget" where
  "applyEvent tgt =
     (let tap = \<not> ontap tgt;
          tapEnd = \<not> ontapend tgt;
          tapStart = \<not> ontapstart tgt
      in if \<not> tap \<and> \<not> tapEnd \<and> \<not> tapStart then tgt
         else tgt\<lparr>installed := installed tgt @ [new_tracker tap tapEnd tapStart],
                  ontap := True, ontapstart := True, ontapend := True\<rparr>)"

text \<open>
  A native event reaches the listeners of every installation, in order. An exception
  in one listener is reported by the platform and does not stop the others.
\<close>

fun run_listeners ::
  "(tracker \<Rightarrow> globals \<Rightarrow> tracker \<times> outcome) \<Rightarrow> tracker list \<Rightarrow> globals \<Rightarrow> tracker list \<times> outcome" where
  "run_listeners h [] g = ([], skip g)"
| "run_listeners h (tr # trs) g =
     (let (tr', a) = h tr g;
          (trs', b) = run_listeners h trs (glob a)
      in (tr' # trs',
          \<lparr>glob = glob b, effects = effects a @ effects b, thrown = thrown a \<or> thrown b\<rparr>))"

text \<open>
  \<^verbatim>\<open>onEnterOrSpacebar\<close>. \<^verbatim>\<open>tapTarget.click()\<close> dispatches the platform's click event at once,
  so the click listeners of the installations run inside the call; an exception of
  theirs does not come back to the caller.
\<close>

definition onEnterOrSpacebar ::
  "env \<Rightarrow> keyboardEvent \<Rightarrow> tracker list \<Rightarrow> globals \<Rightarrow> tracker list \<times> outcome" where
  "onEnterOrSpacebar E ev trs g =
     (case elem_at (composedPath ev) 0 of
        None \<Rightarrow> (trs, skip g)
      | Some tapTarget \<Rightarrow>
          if isHTMLElement tapTarget
             \<and> matches E tapTarget ''[role=button]''
             \<and> \<not> matches E tapTarget ''button,a,input[type=button],input[type=submit]''
          then
            (let (trs', a) = run_listeners (\<lambda>tr g'. on_click E tr g' (click E tapTarget)) trs g
             in (trs', a\<lparr>effects := PreventedKey ev # effects a, thrown := False\<rparr>))
          else (trs, skip g))"

definition on_keyup ::
  "env \<Rightarrow> keyboardEvent \<Rightarrow> tracker list \<Rightarrow> globals \<Rightarrow> tracker list \<times> outcome" where
  "on_keyup E ev trs g =
     (if key ev = ''Enter'' \<or> key ev = ''Spacebar'' \<or> key ev = '' ''
      then onEnterOrSpacebar E ev trs g
      else (trs, skip g))"

text \<open>Every installation has added a keyup listener: \<open>n\<close> of them run in turn.\<close>

fun keyup_listeners ::
  "nat \<Rightarrow> env \<Rightarrow> keyboardEvent \<Rightarrow> tracker list \<Rightarrow> globals \<Rightarrow> tracker list \<times> outcome" where
  "keyup_listeners 0 E ev trs g = (trs, skip g)"
| "keyup_listeners (Suc n) E ev trs g =
     (let (trs1, a) = on_keyup E ev trs g;
          (trs2, b) = keyup_listeners n E ev trs1 (glob a)
      in (trs2, \<lparr>glob = glob b, effects = effects a @ effects b, thrown = thrown a \<or> thrown b\<rparr>))"

datatype nativeEvent =
    MouseDown mouseEvent
  | MouseUp mouseEvent
  | TouchStart touchEvent
  | TouchMove touchEvent
  | TouchEnd touchEvent
  | Click mouseEvent
  | KeyUp keyboardEvent

fun fire :: "env \<Rightarrow> nativeEvent \<Rightarrow> tracker list \<Rightarrow> globals \<Rightarrow> tracker list \<times> outcome" where
  "fire E (MouseDown ev) trs g = run_listeners (\<lambda>tr g'. on_mousedown E tr g' ev) trs g"
| "fire E (MouseUp ev) trs g = run_listeners (\<lambda>tr g'. on_mouseup E tr g' ev) trs g"
| "fire E (TouchStart ev) trs g = run_listeners (\<lambda>tr g'. on_touchstart E tr g' ev) trs g"
| "fire E (TouchMove ev) trs g = run_listeners (\<lambda>tr g'. on_touchmove E tr g' ev) trs g"
| "fire E (TouchEnd ev) trs g = run_listeners (\<lambda>tr g'. on_touchend E tr g' ev) trs g"
| "fire E (Click ev) trs g = run_listeners (\<lambda>tr g'. on_click E tr g' ev) trs g"
| "fire E (KeyUp ev) trs g = keyup_listeners (length trs) E ev trs g"

text \<open>A sequence of native events, with the effects of all of them in order.\<close>

fun fire_all :: "env \<Rightarrow> nativeEvent list \<Rightarrow> tracker list \<Rightarrow> globals \<Rightarrow> tracker list \<times> outcome" where
  "fire_all E [] trs g = (trs, skip g)"
| "fire_all E (ev # evs) trs g =
     (let (trs1, a) = fire E ev trs g;
          (trs2, b) = fire_all E evs trs1 (glob a)
      in (trs2, \<lparr>glob = glob b, effects = effects a @ effects b, thrown = thrown a \<or> thrown b\<rparr>))"

subsection \<open>Observations on effects\<close>

text \<open>The targets on which an event of the given type was dispatched, in order.\<close>

fun dispatched_on :: "string \<Rightarrow> effect list \<Rightarrow> eventTarget list" where
  "dispatched_on ty [] = []"
| "dispatched_on ty (Dispatched t e # xs) =
     (if tapType e = ty then t # dispatched_on ty xs else dispatched_on ty xs)"
| "dispatched_on ty (_ # xs) = dispatched_on ty xs"

text \<open>The types of the synthetic events dispatched, in order.\<close>

fun dispatched_types :: "effect list \<Rightarrow> string list" where
  "dispatched_types [] = []"
| "dispatched_types (Dispatched t e # xs) = tapType e # dispatched_types xs"
| "dispatched_types (_ # xs) = dispatched_types xs"

text \<open>The targets with which the dispatch routine was called.\<close>

fun called_targets :: "effect list \<Rightarrow> eventTarget option list" where
  "called_targets [] = []"
| "called_targets (Called ty t # xs) = t # called_targets xs"
| "called_targets (_ # xs) = called_targets xs"

text \<open>Whether the default action of a native mouse or keyboard event was prevented.\<close>

fun native_prevented :: "effect list \<Rightarrow> bool" where
  "native_prevented [] = False"
| "native_prevented (PreventedMouse e # xs) = True"
| "native_prevented (PreventedKey e # xs) = True"
| "native_prevented (_ # xs) = native_prevented xs"

text \<open>Whether the default action of the given native mouse event was prevented.\<close>

fun prevented_mouse :: "mouseEvent \<Rightarrow> effect list \<Rightarrow> bool" where
  "prevented_mouse ev [] = False"
| "prevented_mouse ev (PreventedMouse e # xs) = (e = ev \<or> prevented_mouse ev xs)"
| "prevented_mouse ev (_ # xs) = prevented_mouse ev xs"

text \<open>Whether the dispatch routine was called with a target that is \<^verbatim>\<open>undefined\<close>.\<close>

fun called_without_target :: "effect list \<Rightarrow> bool" where
  "called_without_target [] = False"
| "called_without_target (Called ty None # xs) = True"
| "called_without_target (_ # xs) = called_without_target xs"

text \<open>Whether a listener of the page prevented the default of a dispatched synthetic event.\<close>

fun synthetic_prevented :: "env \<Rightarrow> effect list \<Rightarrow> bool" where
  "synthetic_prevented E [] = False"
| "synthetic_prevented E (Dispatched t e # xs) = (prevents E t e \<or> synthetic_prevented E xs)"
| "synthetic_prevented E (_ # xs) = synthetic_prevented E xs"

subsection \<open>The effects of one dispatch\<close>

text \<open>
  The synthetic event that the dispatch routine builds from a mouse event or from a
  touch point, and the effects of one call with a target that is there.
\<close>

definition tap_of_mouse :: "string \<Rightarrow> mouseEvent \<Rightarrow> tapEvent" where
  "tap_of_mouse ty ev =
     new_TapEvent ty True True True \<lparr>positions = Some (coords ev), metaKeys = Some (keys ev)\<rparr>"

definition tap_of_touch :: "string \<Rightarrow> touch \<Rightarrow> tapEvent" where
  "tap_of_touch ty u =
     new_TapEvent ty True True True \<lparr>positions = Some (touchCoords u), metaKeys = None\<rparr>"

definition mouse_dispatch :: "env \<Rightarrow> string \<Rightarrow> eventTarget \<Rightarrow> mouseEvent \<Rightarrow> effect list" where
  "mouse_dispatch E ty t ev =
     [Called ty (Some t), Dispatched t (tap_of_mouse ty ev)] @
     (if prevents E t (tap_of_mouse ty ev) then [PreventedMouse ev] else [])"

definition touch_dispatch :: "string \<Rightarrow> eventTarget \<Rightarrow> touch \<Rightarrow> effect list" where
  "touch_dispatch ty t u = [Called ty (Some t), Dispatched t (tap_of_touch ty u)]"

section \<open>The relations the listeners are compared with\<close>

text \<open>
  Both paths trimmed to the same length and aligned at the root, as pairs of a stored
  and a current entry, innermost pair first. A pair is a shared element when both
  entries are the same object and that object is an element node.
\<close>

definition aligned :: "eventTarget list \<Rightarrow> eventTarget list \<Rightarrow> (eventTarget \<times> eventTarget) list" where
  "aligned stored path =
     zip (drop (length stored - length path) stored) (drop (length path - length stored) path)"

definition shared_element :: "eventTarget \<times> eventTarget \<Rightarrow> bool" where
  "shared_element p = (fst p = snd p \<and> nodeType (snd p) = Some ELEMENT_NODE)"

text \<open>
  The tap target in the words of the specification (MouseTapTracker, steps 4 to 6): the
  aligned sequences are walked from the outermost index inward, and the first shared
  element met is the target.
\<close>

definition spec_tap_target :: "eventTarget list \<Rightarrow> eventTarget list \<Rightarrow> eventTarget option" where
  "spec_tap_target stored path = map_option fst (find shared_element (rev (aligned stored path)))"

text \<open>
  The same walk in the other direction: from the innermost index outward, the outermost
  pair left out.
\<close>

definition innermost_tap_target :: "eventTarget list \<Rightarrow> eventTarget list \<Rightarrow> eventTarget option" where
  "innermost_tap_target stored path =
     map_option fst (find shared_element (butlast (aligned stored path)))"

text \<open>
  A pixel lies in the content region of a lane: the relation that the hit test is
  meant to decide, with the comparisons of JavaScript.
\<close>

definition inContent :: "track \<Rightarrow> number \<Rightarrow> number \<Rightarrow> bool" where
  "inContent t index mousePixel =
     (num_le (getContentStart t index) mousePixel \<and> num_lt mousePixel (getContentEnd t index))"

section \<open>Physical activations\<close>








text \<open>The number of \<^verbatim>\<open>tap\<close> events that one installation dispatches for a sequence of native events.\<close>

definition taps :: "env \<Rightarrow> nativeEvent list \<Rightarrow> tracker \<Rightarrow> globals \<Rightarrow> nat" where
  "taps E evs tr g = length (dispatched_on ''tap'' (effects (snd (fire_all E evs [tr] g))))"

section \<open>Example data\<close>

text \<open>
  A small page: a \<^verbatim>\<open>div\<close> with the role of a button inside the body, under the window,
  and events on it. The environment \<open>ex_env ie cancel\<close> is the legacy engine when \<open>ie\<close>
  holds; every listener of the page prevents the default of a synthetic event when
  \<open>cancel\<close> holds; only the \<^verbatim>\<open>div\<close> matches \<^verbatim>\<open>[role=button]\<close>, nothing matches the native
  selector, and \<^verbatim>\<open>click()\<close> fires a pointer event of detail 0 along the element's path.
\<close>

definition ex_window :: eventTarget where
  "ex_window = \<lparr>ident = 0, nodeType = None, isHTMLElement = False\<rparr>"

definition ex_body :: eventTarget where
  "ex_body = \<lparr>ident = 1, nodeType = Some ELEMENT_NODE, isHTMLElement = True\<rparr>"

definition ex_div :: eventTarget where
  "ex_div = \<lparr>ident = 2, nodeType = Some ELEMENT_NODE, isHTMLElement = True\<rparr>"

definition ex_path :: "eventTarget list" where
  "ex_path = [ex_div, ex_body, ex_window]"

definition ex_mouse :: "eventTarget list \<Rightarrow> mouseEvent" where
  "ex_mouse path = \<lparr>target = elem_at path 0, composedPath = path, coords = zero_positions,
     keys = no_keys, detail = 0, isPointerEvent = False\<rparr>"

definition ex_touch :: "int \<Rightarrow> touch" where
  "ex_touch n = \<lparr>touch_identifier = n, touchCoords = zero_positions\<rparr>"

definition ex_touchEvent :: "touch list \<Rightarrow> eventTarget list \<Rightarrow> touchEvent" where
  "ex_touchEvent ts path = \<lparr>target = elem_at path 0, composedPath = path,
     changedTouches = Some ts\<rparr>"

definition ex_key :: "string \<Rightarrow> eventTarget list \<Rightarrow> keyboardEvent" where
  "ex_key k path = \<lparr>target = elem_at path 0, composedPath = path, key = k\<rparr>"

definition ex_env :: "bool \<Rightarrow> bool \<Rightarrow> env" where
  "ex_env ie cancel =
     \<lparr>isIE = ie,
      matches = (\<lambda>t sel. sel = ''[role=button]'' \<and> t = ex_div),
      prevents = (\<lambda>t e. cancel),
      click = (\<lambda>t. (ex_mouse [t, ex_body, ex_window])\<lparr>isPointerEvent := True\<rparr>)\<rparr>"






definition ex_pressed :: tracker where
  "ex_pressed = (new_tracker True True True)\<lparr>mouseEventPath := ex_path\<rparr>"

text \<open>
  A track of ten pixels in three lanes, as \<^verbatim>\<open>init(10, 3)\<close> makes it on a new \<^verbatim>\<open>Track\<close>:
  the lanes start at 0, 3 and 6 and are 3, 3 and 4 pixels wide.
\<close>

definition ex_track :: track where
  "ex_track = the (init new_track (Fin 10) (Fin 3))"

section \<open>Auxiliary facts\<close>

declare tapLoop.simps [simp del]

subsection \<open>One dispatch\<close>

lemma dispatch_mouse [simp]:
  "effects (dispatchTapOnTarget E ty (Some t) (Some (MouseInfo ev)) g) = mouse_dispatch E ty t ev"
  "thrown (dispatchTapOnTarget E ty (Some t) (Some (MouseInfo ev)) g) = False"
  "glob (dispatchTapOnTarget E ty (Some t) (Some (MouseInfo ev)) g)
     = \<lparr>positions = Some (coords ev), metaKeys = Some (keys ev)\<rparr>"
  by (simp_all add: dispatchTapOnTarget_def mouse_dispatch_def tap_of_mouse_def Let_def)

lemma dispatch_touch [simp]:
  "effects (dispatchTapOnTarget E ty (Some t) (Some (TouchInfo u)) g) = touch_dispatch ty t u"
  "thrown (dispatchTapOnTarget E ty (Some t) (Some (TouchInfo u)) g) = False"
  "glob (dispatchTapOnTarget E ty (Some t) (Some (TouchInfo u)) g)
     = \<lparr>positions = Some (touchCoords u), metaKeys = None\<rparr>"
  by (simp_all add: dispatchTapOnTarget_def touch_dispatch_def tap_of_touch_def Let_def)

lemma dispatch_no_info [simp]:
  "effects (dispatchTapOnTarget E ty tgt None g) = [Called ty tgt]"
  "thrown (dispatchTapOnTarget E ty tgt None g) = True"
  "glob (dispatchTapOnTarget E ty tgt None g) = g"
  by (simp_all add: dispatchTapOnTarget_def)

lemma dispatch_no_target [simp]:
  "effects (dispatchTapOnTarget E ty None (Some i) g) = [Called ty None]"
  "thrown (dispatchTapOnTarget E ty None (Some i) g) = True"
  by (simp_all add: dispatchTapOnTarget_def Let_def)

lemma skip_simps [simp]:
  "effects (skip g) = []" "thrown (skip g) = False" "glob (skip g) = g"
  by (simp_all add: skip_def)

lemma seq_simps [simp]:
  "effects (seq a f) = (if thrown a then effects a else effects a @ effects (f (glob a)))"
  "thrown (seq a f) = (thrown a \<or> thrown (f (glob a)))"
  by (simp_all add: seq_def Let_def)

lemma tapType_new [simp]: "tapType (new_TapEvent ty b c k g) = ty"
  by (simp add: new_TapEvent_def)

lemma tapType_of [simp]: "tapType (tap_of_mouse ty ev) = ty" "tapType (tap_of_touch ty u) = ty"
  by (simp_all add: tap_of_mouse_def tap_of_touch_def)

subsection \<open>Observations distribute over concatenation\<close>

lemma dispatched_on_append [simp]:
  "dispatched_on ty (xs @ ys) = dispatched_on ty xs @ dispatched_on ty ys"
  by (induction ty xs rule: dispatched_on.induct) auto

lemma dispatched_types_append [simp]:
  "dispatched_types (xs @ ys) = dispatched_types xs @ dispatched_types ys"
  by (induction xs rule: dispatched_types.induct) auto

lemma called_targets_append [simp]:
  "called_targets (xs @ ys) = called_targets xs @ called_targets ys"
  by (induction xs rule: called_targets.induct) auto

lemma native_prevented_append [simp]:
  "native_prevented (xs @ ys) = (native_prevented xs \<or> native_prevented ys)"
  by (induction xs rule: native_prevented.induct) auto

lemma synthetic_prevented_append [simp]:
  "synthetic_prevented E (xs @ ys) = (synthetic_prevented E xs \<or> synthetic_prevented E ys)"
  by (induction E xs rule: synthetic_prevented.induct) auto

lemma prevented_mouse_append [simp]:
  "prevented_mouse ev (xs @ ys) = (prevented_mouse ev xs \<or> prevented_mouse ev ys)"
  by (induction ev xs rule: prevented_mouse.induct) auto

lemma called_without_target_append [simp]:
  "called_without_target (xs @ ys) = (called_without_target xs \<or> called_without_target ys)"
  by (induction xs rule: called_without_target.induct) auto

lemma mouse_dispatch_obs [simp]:
  "dispatched_on ty' (mouse_dispatch E ty t ev) = (if ty = ty' then [t] else [])"
  "dispatched_types (mouse_dispatch E ty t ev) = [ty]"
  "called_targets (mouse_dispatch E ty t ev) = [Some t]"
  "synthetic_prevented E (mouse_dispatch E ty t ev) = prevents E t (tap_of_mouse ty ev)"
  "native_prevented (mouse_dispatch E ty t ev) = prevents E t (tap_of_mouse ty ev)"
  "prevented_mouse ev' (mouse_dispatch E ty t ev)
     = (ev = ev' \<and> prevents E t (tap_of_mouse ty ev))"
  "called_without_target (mouse_dispatch E ty t ev) = False"
  by (auto simp: mouse_dispatch_def)

lemma touch_dispatch_obs [simp]:
  "dispatched_on ty' (touch_dispatch ty t u) = (if ty = ty' then [t] else [])"
  "dispatched_types (touch_dispatch ty t u) = [ty]"
  "called_targets (touch_dispatch ty t u) = [Some t]"
  "synthetic_prevented E (touch_dispatch ty t u) = prevents E t (tap_of_touch ty u)"
  "native_prevented (touch_dispatch ty t u) = False"
  "called_without_target (touch_dispatch ty t u) = False"
  by (auto simp: touch_dispatch_def)

subsection \<open>The effects of each listener\<close>

lemma on_mousedown_effects:
  "effects (snd (on_mousedown E tr g ev)) =
     (if lastTapTarget tr = None \<and> target ev \<noteq> None \<and> currentTouch tr = - 1 \<and> onTapStart tr
      then (case composedPath ev of [] \<Rightarrow> [] | t # _ \<Rightarrow> mouse_dispatch E ''tapstart'' t ev)
      else [])"
  by (auto simp: on_mousedown_def Let_def split: list.splits)

lemma on_mouseup_effects:
  "effects (snd (on_mouseup E tr g ev)) =
     (if lastTapTarget tr \<noteq> None then []
      else
        (case composedPath ev of
           [] \<Rightarrow> []
         | t # _ \<Rightarrow> if onTapEnd tr then mouse_dispatch E ''tapend'' t ev else []) @
        (if onTap tr then
           (case tapLoop 0 (fst (reconcile_mouse (mouseEventPath tr) (composedPath ev)))
                           (snd (reconcile_mouse (mouseEventPath tr) (composedPath ev))) of
              None \<Rightarrow> []
            | Some t \<Rightarrow> mouse_dispatch E ''tap'' t ev)
         else []))"
  by (simp add: on_mouseup_def Let_def split: list.splits option.splits prod.splits)

lemma on_touchstart_effects:
  "effects (snd (on_touchstart E tr g ev)) =
     (case changedTouches ev of
        None \<Rightarrow> []
      | Some touches \<Rightarrow>
          (case touches of
             [] \<Rightarrow> []
           | u # _ \<Rightarrow>
               (case composedPath ev of
                  [] \<Rightarrow> []
                | t # _ \<Rightarrow> if onTapStart tr then touch_dispatch ''tapstart'' t u else [])))"
  by (simp add: on_touchstart_def Let_def split: list.splits option.splits)

lemma on_touchend_effects:
  "effects (snd (on_touchend E tr g ev)) =
     (case changedTouches ev of
        None \<Rightarrow> []
      | Some touches \<Rightarrow>
          (case snd (reconcile_touch (touchEventPath tr) (composedPath ev)) of
             [] \<Rightarrow> []
           | t # _ \<Rightarrow>
               (case touches of
                  [] \<Rightarrow> if onTapEnd tr then [Called ''tapend'' (Some t)] else []
                | u # _ \<Rightarrow>
                    (if onTapEnd tr then touch_dispatch ''tapend'' t u else []) @
                    (if touch_identifier u = currentTouch tr \<and> onTap tr
                     then touch_dispatch ''tap'' t u else []))))"
  by (simp add: on_touchend_def Let_def split: list.splits option.splits prod.splits)

lemma on_click_effects:
  "effects (snd (on_click E tr g ev)) =
     (if isButtonEnterOrSpace E ev \<and> onTap tr then
        (case composedPath ev of
           [] \<Rightarrow> [Called ''tap'' None]
         | t # _ \<Rightarrow> mouse_dispatch E ''tap'' t ev)
      else [])"
  by (simp add: on_click_def Let_def elem_at_def split: list.splits)

subsection \<open>The state after touchend, and the suppression flag\<close>

lemma on_touchend_tracker:
  "fst (on_touchend E tr g ev) =
     (case changedTouches ev of
        None \<Rightarrow> cleanup tr
      | Some touches \<Rightarrow>
          (case snd (reconcile_touch (touchEventPath tr) (composedPath ev)) of
             [] \<Rightarrow> cleanup tr
           | t # _ \<Rightarrow>
               (case touches of
                  [] \<Rightarrow> cleanup tr
                | u # _ \<Rightarrow>
                    if touch_identifier u = currentTouch tr
                    then cleanup (tr\<lparr>lastTapTarget := Some t\<rparr>) else cleanup tr)))"
  by (simp add: on_touchend_def Let_def split: list.splits option.splits prod.splits)

lemma on_touchend_currentTouch: "currentTouch (fst (on_touchend E tr g ev)) = - 1"
  by (simp add: on_touchend_tracker cleanup_def split: list.splits option.splits)

lemma on_touchend_thrown:
  "thrown (snd (on_touchend E tr g ev))
     = (changedTouches ev = None
        \<or> changedTouches ev = Some []
          \<and> snd (reconcile_touch (touchEventPath tr) (composedPath ev)) \<noteq> [])"
  by (auto simp: on_touchend_def Let_def split: prod.splits list.splits option.splits)






subsection \<open>The loop of the mouseup listener\<close>

lemma reconcile_mouse_drop:
  "reconcile_mouse stored path =
     (drop (length stored - length path) stored, drop (length path - length stored) path)"
  by (simp add: reconcile_mouse_def)

lemma tapLoop_find:
  "length stored = length path \<Longrightarrow>
   tapLoop i stored path = map_option fst (find shared_element (drop i (butlast (zip stored path))))"
proof (induction i stored path rule: tapLoop.induct)
  case (1 i stored path)
  let ?zs = "zip stored path"
  show ?case
  proof (cases "int i < int (length stored) - 1")
    case False
    then have "drop i (butlast ?zs) = []"
      using "1.prems" by simp
    with False show ?thesis
      by (subst tapLoop.simps) simp
  next
    case True
    then have i: "i < length (butlast ?zs)" and i': "i < length stored" "i < length path"
      using "1.prems" by simp_all
    have nth: "butlast ?zs ! i = (stored ! i, path ! i)"
      using i i' by (simp add: nth_butlast)
    have split: "drop i (butlast ?zs) = (stored ! i, path ! i) # drop (Suc i) (butlast ?zs)"
      using Cons_nth_drop_Suc [OF i] nth by simp
    show ?thesis
    proof (cases "stored ! i = path ! i \<and> nodeType (path ! i) = Some ELEMENT_NODE")
      case hit: True
      then have yes: "shared_element (stored ! i, path ! i)"
        by (simp add: shared_element_def)
      from hit True i' have "tapLoop i stored path = Some (stored ! i)"
        by (subst tapLoop.simps) (simp add: elem_at_def)
      with split yes show ?thesis by simp
    next
      case miss: False
      then have no: "\<not> shared_element (stored ! i, path ! i)"
        by (simp add: shared_element_def)
      from miss True i' have "tapLoop i stored path = tapLoop (i + 1) stored path"
        by (subst tapLoop.simps) (auto simp: elem_at_def)
      also have "\<dots> = map_option fst (find shared_element (drop (i + 1) (butlast ?zs)))"
        using "1.IH" True miss i' "1.prems" by (auto simp: elem_at_def)
      finally show ?thesis
        using split no by simp
    qed
  qed
qed

lemma mouseup_tap_target:
  "tapLoop 0 (fst (reconcile_mouse stored path)) (snd (reconcile_mouse stored path))
     = innermost_tap_target stored path"
  by (simp add: reconcile_mouse_drop tapLoop_find innermost_tap_target_def aligned_def)

lemma innermost_example: "innermost_tap_target ex_path ex_path = Some ex_div"
  by (simp add: innermost_tap_target_def aligned_def shared_element_def ex_path_def ex_div_def
      ex_body_def ex_window_def ELEMENT_NODE_def)


subsection \<open>Delivery to a single installation\<close>

lemma outcome_eta [simp]: "\<lparr>glob = glob a, effects = effects a, thrown = thrown a\<rparr> = a"
  by (cases a) simp

lemma run_listeners_single: "run_listeners h [tr] g = ([fst (h tr g)], snd (h tr g))"
  by (simp add: case_prod_beta)

lemma fire_single:
  "fire E (MouseDown m) [tr] g = ([fst (on_mousedown E tr g m)], snd (on_mousedown E tr g m))"
  "fire E (MouseUp m) [tr] g = ([fst (on_mouseup E tr g m)], snd (on_mouseup E tr g m))"
  "fire E (TouchStart t) [tr] g = ([fst (on_touchstart E tr g t)], snd (on_touchstart E tr g t))"
  "fire E (TouchMove t) [tr] g = ([fst (on_touchmove E tr g t)], snd (on_touchmove E tr g t))"
  "fire E (TouchEnd t) [tr] g = ([fst (on_touchend E tr g t)], snd (on_touchend E tr g t))"
  "fire E (Click m) [tr] g = ([fst (on_click E tr g m)], snd (on_click E tr g m))"
  by (simp_all add: case_prod_beta)

lemma fire_all_effects:
  "effects (snd (fire_all E [] trs g)) = []"
  "effects (snd (fire_all E (ev # evs) trs g)) =
     effects (snd (fire E ev trs g)) @
     effects (snd (fire_all E evs (fst (fire E ev trs g)) (glob (snd (fire E ev trs g)))))"
  by (simp_all add: case_prod_beta)

lemma on_touchstart_tracker:
  "changedTouches ev = Some (u # us) \<Longrightarrow>
   fst (on_touchstart E tr g ev)
     = tr\<lparr>startTouch := Some u, currentTouch := touch_identifier u,
          touchEventPath := composedPath ev\<rparr>"
  by (simp add: on_touchstart_def Let_def split: list.splits)

lemma on_touchmove_tracker: "fst (on_touchmove E tr g ev) = tr\<lparr>currentTouch := - 1\<rparr>"
  by (simp add: on_touchmove_def)

lemma on_touchmove_effects: "effects (snd (on_touchmove E tr g ev)) = []"
  by (simp add: on_touchmove_def)

lemma reconcile_touch_nonempty:
  "stored \<noteq> [] \<Longrightarrow> path \<noteq> [] \<Longrightarrow> snd (reconcile_touch stored path) \<noteq> []"
  by (cases stored) (auto simp: reconcile_touch_def)

lemma on_mousedown_tracker:
  "fst (on_mousedown E tr g ev) =
     (if lastTapTarget tr = None \<and> target ev \<noteq> None \<and> currentTouch tr = - 1
      then tr\<lparr>mouseEventPath := composedPath ev\<rparr> else tr)"
  by (simp add: on_mousedown_def Let_def split: list.splits)

lemma innermost_same:
  assumes "nodeType el = Some ELEMENT_NODE" and "rest \<noteq> []"
  shows "innermost_tap_target (el # rest) (el # rest) = Some el"
proof -
  have "zip rest rest \<noteq> []" using assms(2) by (cases rest) simp_all
  then have "butlast (zip (el # rest) (el # rest)) = (el, el) # butlast (zip rest rest)"
    by simp
  then show ?thesis
    using assms(1) by (simp add: innermost_tap_target_def aligned_def shared_element_def)
qed

lemma mouse_tap_single:
  assumes dn: "composedPath dn = el # rest" "target dn \<noteq> None"
      and up: "composedPath up = el # rest"
      and el: "nodeType el = Some ELEMENT_NODE" "rest \<noteq> []"
  shows "effects (snd (fire_all E [MouseDown dn, MouseUp up] [new_tracker True True True] g))
           = mouse_dispatch E ''tapstart'' el dn @ mouse_dispatch E ''tapend'' el up
             @ mouse_dispatch E ''tap'' el up"
proof -
  let ?tr = "new_tracker True True True"
  let ?tr1 = "fst (on_mousedown E ?tr g dn)"
  have tr1: "?tr1 = ?tr\<lparr>mouseEventPath := el # rest\<rparr>"
    using dn by (simp add: on_mousedown_tracker new_tracker_def)
  have down: "effects (snd (on_mousedown E ?tr g dn)) = mouse_dispatch E ''tapstart'' el dn"
    using dn by (simp add: on_mousedown_effects new_tracker_def)
  have "effects (snd (on_mouseup E ?tr1 g' up))
          = mouse_dispatch E ''tapend'' el up @ mouse_dispatch E ''tap'' el up" for g'
    using up innermost_same [OF el]
    by (simp only: tr1) (simp add: on_mouseup_effects mouseup_tap_target new_tracker_def)
  with down show ?thesis
    by (simp add: fire_all_effects fire_single del: fire.simps fire_all.simps)
qed

lemma on_click_thrown:
  "thrown (snd (on_click E tr g ev))
     = (isButtonEnterOrSpace E ev \<and> onTap tr \<and> composedPath ev = [])"
  by (auto simp: on_click_def Let_def elem_at_def split: list.splits)

lemma ex_path_cons: "ex_path = ex_div # [ex_body, ex_window]"
  by (simp add: ex_path_def)

lemma on_click_tracker: "fst (on_click E tr g ev) = tr"
  by (simp add: on_click_def Let_def)

lemma onEnterOrSpacebar_single:
  "effects (snd (onEnterOrSpacebar E ev [tr] g)) =
     (case composedPath ev of
        [] \<Rightarrow> []
      | t # _ \<Rightarrow>
          if isHTMLElement t \<and> matches E t ''[role=button]''
             \<and> \<not> matches E t ''button,a,input[type=button],input[type=submit]''
          then PreventedKey ev # effects (snd (on_click E tr g (click E t)))
          else [])"
  "fst (onEnterOrSpacebar E ev [tr] g) = [tr]"
  by (simp_all add: onEnterOrSpacebar_def elem_at_def case_prod_beta on_click_tracker
      split: list.splits)

lemma fire_keyup_single:
  "effects (snd (fire E (KeyUp ev) [tr] g)) =
     (if key ev = ''Enter'' \<or> key ev = ''Spacebar'' \<or> key ev = '' ''
      then effects (snd (onEnterOrSpacebar E ev [tr] g)) else [])"
  "fst (fire E (KeyUp ev) [tr] g) = [tr]"
  by (simp_all add: on_keyup_def case_prod_beta onEnterOrSpacebar_single(2))

lemma click_tap_count:
  "length (dispatched_on ''tap'' (effects (snd (on_click E tr g ev))))
     = (if onTap tr \<and> detail ev = 0 \<and> \<not> (isIE E \<and> isPointerEvent ev) \<and> composedPath ev \<noteq> []
        then 1 else 0)"
  by (auto simp: on_click_effects isButtonEnterOrSpace_def split: list.splits)

subsection \<open>At most one tap for a native event\<close>




subsection \<open>At most one tap for an activation\<close>

lemma fire_singleton: "\<exists>tr'. fst (fire E ev [tr] g) = [tr']"
  by (cases ev) (simp_all add: fire_single fire_keyup_single del: fire.simps)

lemma taps_Nil: "taps E [] tr g = 0"
  by (simp add: taps_def)

lemma taps_Cons:
  "fst (fire E ev [tr] g) = [tr'] \<Longrightarrow>
   taps E (ev # evs) tr g =
     length (dispatched_on ''tap'' (effects (snd (fire E ev [tr] g))))
     + taps E evs tr' (glob (snd (fire E ev [tr] g)))"
  by (simp add: taps_def fire_all_effects del: fire.simps fire_all.simps)

lemma taps_MouseDown:
  "taps E (MouseDown d # evs) tr g =
     taps E evs (fst (on_mousedown E tr g d)) (glob (snd (on_mousedown E tr g d)))"
  by (subst taps_Cons [where tr' = "fst (on_mousedown E tr g d)"])
     (simp_all add: fire_single on_mousedown_effects del: fire.simps split: list.splits)

lemma taps_MouseUp:
  "taps E (MouseUp u # evs) tr g =
     length (dispatched_on ''tap'' (effects (snd (on_mouseup E tr g u))))
     + taps E evs (fst (on_mouseup E tr g u)) (glob (snd (on_mouseup E tr g u)))"
  by (subst taps_Cons [where tr' = "fst (on_mouseup E tr g u)"])
     (simp_all add: fire_single del: fire.simps)

lemma taps_Click:
  "taps E (Click c # evs) tr g =
     length (dispatched_on ''tap'' (effects (snd (on_click E tr g c))))
     + taps E evs tr (glob (snd (on_click E tr g c)))"
  by (subst taps_Cons [where tr' = tr])
     (simp_all add: fire_single on_click_tracker del: fire.simps)




lemma taps_KeyUp:
  "taps E (KeyUp k # evs) tr g =
     length (dispatched_on ''tap'' (effects (snd (fire E (KeyUp k) [tr] g))))
     + taps E evs tr (glob (snd (fire E (KeyUp k) [tr] g)))"
  by (subst taps_Cons [where tr' = tr])
     (simp_all add: fire_keyup_single del: fire.simps)











subsection \<open>Cancellation\<close>

lemma mousedown_cancel:
  "synthetic_prevented E (effects (snd (on_mousedown E tr g ev)))
     = prevented_mouse ev (effects (snd (on_mousedown E tr g ev)))"
  by (simp add: on_mousedown_effects split: list.splits)

lemma mouseup_cancel:
  "synthetic_prevented E (effects (snd (on_mouseup E tr g ev)))
     = prevented_mouse ev (effects (snd (on_mouseup E tr g ev)))"
  by (simp add: on_mouseup_effects split: list.splits option.splits)

lemma click_cancel:
  "synthetic_prevented E (effects (snd (on_click E tr g ev)))
     = prevented_mouse ev (effects (snd (on_click E tr g ev)))"
  by (simp add: on_click_effects split: list.splits)

lemma touchstart_no_cancel:
  "\<not> native_prevented (effects (snd (on_touchstart E tr g ev)))"
  by (simp add: on_touchstart_effects split: list.splits option.splits)

lemma touchend_no_cancel:
  "\<not> native_prevented (effects (snd (on_touchend E tr g ev)))"
  by (simp add: on_touchend_effects split: list.splits option.splits)

lemma synthetic_prevented_mem:
  "Dispatched t e \<in> set effs \<Longrightarrow> prevents E t e \<Longrightarrow> synthetic_prevented E effs"
  by (induction E effs rule: synthetic_prevented.induct) auto

lemma ex_mouse_fields:
  "composedPath (ex_mouse p) = p" "target (ex_mouse p) = elem_at p 0"
  "detail (ex_mouse p) = 0" "isPointerEvent (ex_mouse p) = False"
  by (simp_all add: ex_mouse_def)

lemma ex_pressed_fields:
  "lastTapTarget ex_pressed = None" "currentTouch ex_pressed = - 1"
  "onTap ex_pressed" "onTapEnd ex_pressed" "onTapStart ex_pressed"
  "mouseEventPath ex_pressed = ex_path"
  by (simp_all add: ex_pressed_def new_tracker_def)

lemma ex_pressed_effects:
  "effects (snd (on_mousedown E ex_pressed g (ex_mouse ex_path)))
     = mouse_dispatch E ''tapstart'' ex_div (ex_mouse ex_path)"
  "effects (snd (on_mouseup E ex_pressed g (ex_mouse ex_path)))
     = mouse_dispatch E ''tapend'' ex_div (ex_mouse ex_path)
       @ mouse_dispatch E ''tap'' ex_div (ex_mouse ex_path)"
  "isIE E = False \<Longrightarrow> effects (snd (on_click E ex_pressed g (ex_mouse ex_path)))
     = mouse_dispatch E ''tap'' ex_div (ex_mouse ex_path)"
proof -
  have path: "composedPath (ex_mouse ex_path) = ex_div # [ex_body, ex_window]"
    by (simp add: ex_mouse_fields ex_path_cons)
  have tgt: "target (ex_mouse ex_path) \<noteq> None"
    by (simp add: ex_mouse_fields ex_path_cons elem_at_def)
  show "effects (snd (on_mousedown E ex_pressed g (ex_mouse ex_path)))
     = mouse_dispatch E ''tapstart'' ex_div (ex_mouse ex_path)"
    by (simp add: on_mousedown_effects ex_pressed_fields path tgt)
  have "innermost_tap_target ex_path (composedPath (ex_mouse ex_path)) = Some ex_div"
    by (simp add: ex_mouse_fields innermost_example)
  then show "effects (snd (on_mouseup E ex_pressed g (ex_mouse ex_path)))
     = mouse_dispatch E ''tapend'' ex_div (ex_mouse ex_path)
       @ mouse_dispatch E ''tap'' ex_div (ex_mouse ex_path)"
    by (simp add: on_mouseup_effects ex_pressed_fields mouseup_tap_target path)
  show "effects (snd (on_click E ex_pressed g (ex_mouse ex_path)))
     = mouse_dispatch E ''tap'' ex_div (ex_mouse ex_path)" if "isIE E = False"
    using that
    by (simp add: on_click_effects ex_pressed_fields isButtonEnterOrSpace_def path
        ex_mouse_fields(3,4))
qed

subsection \<open>Sequences outside the conventions of the platform\<close>

text \<open>
  Both conventions on activations are used. A click of detail 0 delivered after the
  mouseup of a press, and a click of detail 0 delivered together with the keyup on an
  element with the role of a button that is not in the native selector list, each
  give a second \<^verbatim>\<open>tap\<close>.
\<close>

lemma on_mouseup_onTap: "onTap (fst (on_mouseup E tr g ev)) = onTap tr"
  by (simp add: on_mouseup_def Let_def split: list.splits option.splits prod.splits)

lemma zero_click_tap:
  "onTap tr \<Longrightarrow>
   length (dispatched_on ''tap'' (effects (snd (on_click (ex_env False False) tr g
     (ex_mouse ex_path))))) = 1"
  by (simp add: click_tap_count ex_mouse_fields ex_env_def ex_path_cons)

lemma outside_conventions:
  "taps (ex_env False False)
     [MouseDown (ex_mouse ex_path), MouseUp (ex_mouse ex_path), Click (ex_mouse ex_path)]
     ex_pressed new_globals = 2"
  "taps (ex_env False False) [Click (ex_mouse ex_path), KeyUp (ex_key ''Enter'' ex_path)]
     ex_pressed new_globals = 2"
proof -
  let ?E = "ex_env False False"
  have down: "fst (on_mousedown ?E ex_pressed new_globals (ex_mouse ex_path)) = ex_pressed"
    by (simp add: on_mousedown_tracker ex_pressed_def ex_mouse_fields)
  have up: "length (dispatched_on ''tap''
      (effects (snd (on_mouseup ?E ex_pressed g (ex_mouse ex_path))))) = 1" for g
    by (simp add: ex_pressed_effects(2))
  have click: "length (dispatched_on ''tap'' (effects (snd (on_click ?E
      (fst (on_mouseup ?E ex_pressed g (ex_mouse ex_path))) g' (ex_mouse ex_path))))) = 1"
    for g g'
    by (rule zero_click_tap) (simp add: on_mouseup_onTap ex_pressed_fields)
  show "taps ?E
     [MouseDown (ex_mouse ex_path), MouseUp (ex_mouse ex_path), Click (ex_mouse ex_path)]
     ex_pressed new_globals = 2"
    by (simp only: taps_MouseDown taps_MouseUp taps_Click taps_Nil down up click)
  have key: "length (dispatched_on ''tap''
      (effects (snd (fire ?E (KeyUp (ex_key ''Enter'' ex_path)) [ex_pressed] g)))) = 1" for g
  proof -
    have "effects (snd (fire ?E (KeyUp (ex_key ''Enter'' ex_path)) [ex_pressed] g))
        = PreventedKey (ex_key ''Enter'' ex_path)
          # effects (snd (on_click ?E ex_pressed g (click ?E ex_div)))"
      by (simp add: fire_keyup_single onEnterOrSpacebar_single ex_key_def ex_path_cons
          ex_env_def ex_div_def del: fire.simps)
    moreover have "length (dispatched_on ''tap''
        (effects (snd (on_click ?E ex_pressed g (click ?E ex_div))))) = 1"
      by (simp add: click_tap_count ex_pressed_fields ex_env_def ex_mouse_def)
    ultimately show ?thesis by simp
  qed
  show "taps ?E [Click (ex_mouse ex_path), KeyUp (ex_key ''Enter'' ex_path)]
     ex_pressed new_globals = 2"
    using zero_click_tap [of ex_pressed new_globals] key
    by (simp add: taps_KeyUp taps_Click taps_Nil ex_pressed_fields del: fire.simps)
qed

subsection \<open>Installation and the capability flags\<close>

lemma applyEvent_claimed:
  "ontap (applyEvent tgt) \<and> ontapstart (applyEvent tgt) \<and> ontapend (applyEvent tgt)"
  by (simp add: applyEvent_def Let_def)

lemma applyEvent_noop:
  "ontap tgt \<Longrightarrow> ontapstart tgt \<Longrightarrow> ontapend tgt \<Longrightarrow> applyEvent tgt = tgt"
  by (simp add: applyEvent_def)

lemma applyEvent_twice: "applyEvent (applyEvent tgt) = applyEvent tgt"
  using applyEvent_claimed [of tgt] by (intro applyEvent_noop) simp_all

lemma applyEvent_fresh:
  "applyEvent fresh_target
     = \<lparr>ontap = True, ontapstart = True, ontapend = True,
        installed = [new_tracker True True True]\<rparr>"
  by (simp add: applyEvent_def fresh_target_def)

lemma applyEvent_unfolded:
  "applyEvent tgt =
     (if ontap tgt \<and> ontapend tgt \<and> ontapstart tgt then tgt
      else tgt\<lparr>installed := installed tgt
                  @ [new_tracker (\<not> ontap tgt) (\<not> ontapend tgt) (\<not> ontapstart tgt)],
               ontap := True, ontapstart := True, ontapend := True\<rparr>)"
  by (simp add: applyEvent_def Let_def)

lemma mousedown_gated:
  "\<not> (ty = ''tapstart'' \<and> onTapStart tr) \<Longrightarrow>
   dispatched_on ty (effects (snd (on_mousedown E tr g ev))) = []"
  by (auto simp: on_mousedown_effects split: list.splits)

lemma mouseup_gated:
  "\<not> (ty = ''tapend'' \<and> onTapEnd tr) \<Longrightarrow> \<not> (ty = ''tap'' \<and> onTap tr) \<Longrightarrow>
   dispatched_on ty (effects (snd (on_mouseup E tr g ev))) = []"
  by (auto simp: on_mouseup_effects split: list.splits option.splits)

lemma touchstart_gated:
  "\<not> (ty = ''tapstart'' \<and> onTapStart tr) \<Longrightarrow>
   dispatched_on ty (effects (snd (on_touchstart E tr g ev))) = []"
  by (auto simp: on_touchstart_effects split: list.splits option.splits)

lemma touchend_gated:
  "\<not> (ty = ''tapend'' \<and> onTapEnd tr) \<Longrightarrow> \<not> (ty = ''tap'' \<and> onTap tr) \<Longrightarrow>
   dispatched_on ty (effects (snd (on_touchend E tr g ev))) = []"
  by (auto simp: on_touchend_effects split: list.splits option.splits)

lemma click_gated:
  "\<not> (ty = ''tap'' \<and> onTap tr) \<Longrightarrow> dispatched_on ty (effects (snd (on_click E tr g ev))) = []"
  by (auto simp: on_click_effects split: list.splits)

lemma keyup_gated:
  "\<not> (ty = ''tap'' \<and> onTap tr) \<Longrightarrow>
   dispatched_on ty (effects (snd (fire E (KeyUp ev) [tr] g))) = []"
  by (auto simp: fire_keyup_single onEnterOrSpacebar_single click_gated simp del: fire.simps
      split: list.splits)

lemma fire_gated:
  assumes "\<not> (ty = ''tapstart'' \<and> onTapStart tr)"
      and "\<not> (ty = ''tapend'' \<and> onTapEnd tr)"
      and "\<not> (ty = ''tap'' \<and> onTap tr)"
  shows "dispatched_on ty (effects (snd (fire E ev [tr] g))) = []"
proof (cases ev)
  case (KeyUp k)
  then show ?thesis using keyup_gated [OF assms(3)] by simp
qed (use assms in \<open>simp_all add: fire_single on_touchmove_effects mousedown_gated mouseup_gated
       touchstart_gated touchend_gated click_gated del: fire.simps\<close>)

lemma gate_fire:
  "onTap tr \<or> dispatched_on ''tap'' (effects (snd (fire E ev [tr] g))) = []"
  "onTapStart tr \<or> dispatched_on ''tapstart'' (effects (snd (fire E ev [tr] g))) = []"
  "onTapEnd tr \<or> dispatched_on ''tapend'' (effects (snd (fire E ev [tr] g))) = []"
proof -
  show "onTap tr \<or> dispatched_on ''tap'' (effects (snd (fire E ev [tr] g))) = []"
    by (cases "onTap tr") (simp_all add: fire_gated del: fire.simps)
  show "onTapStart tr \<or> dispatched_on ''tapstart'' (effects (snd (fire E ev [tr] g))) = []"
    by (cases "onTapStart tr") (simp_all add: fire_gated del: fire.simps)
  show "onTapEnd tr \<or> dispatched_on ''tapend'' (effects (snd (fire E ev [tr] g))) = []"
    by (cases "onTapEnd tr") (simp_all add: fire_gated del: fire.simps)
qed

subsection \<open>The rounding\<close>

text \<open>
  The exponent that \<open>floor_log2\<close> finds is the binary exponent of its argument, and the
  result of \<open>to_double\<close> is a multiple of the unit in the last place at most half a
  unit away from the exact value.
\<close>

lemma bitlen_powi_bounds:
  assumes "0 < a"
  shows "(2::rat) powi (bitlen a - 1) \<le> of_int a" "of_int a < (2::rat) powi (bitlen a)"
proof -
  from assms have b: "1 \<le> bitlen a"
    using bitlen_eq_zero_iff [of a] bitlen_nonneg [of a] by linarith
  from bitlen_bounds [OF assms] have lo: "2 ^ nat (bitlen a - 1) \<le> a" and hi: "a < 2 ^ nat (bitlen a)"
    by simp_all
  have "(2::rat) powi (bitlen a - 1) = of_int (2 ^ nat (bitlen a - 1))"
    using b by (simp add: power_int_def)
  also have "\<dots> \<le> of_int a" using lo by (simp only: of_int_le_iff)
  finally show "(2::rat) powi (bitlen a - 1) \<le> of_int a" .
  have "(of_int a :: rat) < of_int (2 ^ nat (bitlen a))" using hi by (simp only: of_int_less_iff)
  also have "\<dots> = 2 powi (bitlen a)" using b by (simp add: power_int_def)
  finally show "of_int a < (2::rat) powi (bitlen a)" .
qed

lemma floor_log2_bounds:
  assumes "0 < q"
  shows "2 powi (floor_log2 q) \<le> q" "q < 2 powi (floor_log2 q + 1)"
proof -
  obtain n d where nd: "quotient_of q = (n, d)" by (cases "quotient_of q")
  then have d: "0 < d" and q: "q = of_int n / of_int d"
    using quotient_of_denom_pos [OF nd] quotient_of_div [OF nd] by simp_all
  from assms d q have n: "0 < n"
    by (simp add: zero_less_divide_iff)
  define k where "k = bitlen n - bitlen d"
  have dq: "(0::rat) < of_int d" using d by simp
  have "q * of_int d = of_int n" using q dq by simp
  have up: "q < 2 powi (k + 1)"
  proof -
    have "of_int n < (2::rat) powi (bitlen n)" by (rule bitlen_powi_bounds(2) [OF n])
    also have "\<dots> = 2 powi (k + 1) * 2 powi (bitlen d - 1)"
      by (simp add: k_def power_int_add [symmetric])
    also have "\<dots> \<le> 2 powi (k + 1) * of_int d"
      using bitlen_powi_bounds(1) [OF d] by (intro mult_left_mono) simp_all
    finally have "of_int n / of_int d < (2::rat) powi (k + 1)"
      using dq by (simp add: pos_divide_less_eq)
    then show ?thesis using q by simp
  qed
  have lo: "2 powi (k - 1) < q"
  proof -
    have "(2::rat) powi (k - 1) * of_int d < 2 powi (k - 1) * 2 powi (bitlen d)"
      using bitlen_powi_bounds(2) [OF d] by (intro mult_strict_left_mono) simp_all
    also have "\<dots> = 2 powi (bitlen n - 1)"
      by (simp add: k_def power_int_add [symmetric])
    also have "\<dots> \<le> of_int n" by (rule bitlen_powi_bounds(1) [OF n])
    finally have "(2::rat) powi (k - 1) < of_int n / of_int d"
      using dq by (simp add: pos_less_divide_eq)
    then show ?thesis using q by simp
  qed
  have fl: "floor_log2 q = (if 2 powi k \<le> q then k else k - 1)"
    by (simp add: floor_log2_def nd k_def)
  show "2 powi (floor_log2 q) \<le> q"
    using lo by (simp add: fl)
  show "q < 2 powi (floor_log2 q + 1)"
    using up by (simp add: fl)
qed

lemma round_half_even_error: "\<bar>of_int (round_half_even m) - m\<bar> \<le> 1 / 2"
proof -
  have "of_int \<lfloor>m\<rfloor> \<le> m" "m < of_int \<lfloor>m\<rfloor> + 1" by linarith+
  then show ?thesis
    by (auto simp: round_half_even_def Let_def abs_le_iff)
qed

lemma to_double_error:
  assumes "to_double q = Fin v"
  shows "\<bar>v - q\<bar> \<le> 2 powi (max (- 1022) (floor_log2 \<bar>q\<bar>) - 52) / 2"
proof (cases "q = 0")
  case True
  with assms show ?thesis by (simp add: to_double_def)
next
  case False
  define ulp :: rat where "ulp = 2 powi (max (- 1022) (floor_log2 \<bar>q\<bar>) - 52)"
  define r where "r = round_half_even (q / ulp)"
  have ulp: "0 < ulp" by (simp add: ulp_def)
  from assms False have "v = of_int r * ulp"
    by (auto simp: to_double_def Let_def ulp_def r_def zero_of_def inf_of_def
        split: if_splits)
  then have "v - q = (of_int r - q / ulp) * ulp"
    using ulp by (simp add: algebra_simps)
  then have "\<bar>v - q\<bar> = \<bar>of_int r - q / ulp\<bar> * ulp"
    using ulp by (simp add: abs_mult)
  also have "\<dots> \<le> (1 / 2) * ulp"
    using round_half_even_error [of "q / ulp"] ulp
    by (intro mult_right_mono) (simp_all add: r_def)
  finally show ?thesis by (simp add: ulp_def)
qed

text \<open>
  The overflow test of \<open>to_double\<close> compares with \<open>2^1024\<close>. For evaluation it is
  replaced by the equivalent test on the bit length of the rounded significand.
\<close>

lemma overflow_test:
  assumes "r \<noteq> 0"
  shows "((2::rat) powi 1024 \<le> \<bar>of_int r * 2 powi k\<bar>) = (1024 < bitlen \<bar>r\<bar> + k)"
proof -
  have pos: "0 < \<bar>r\<bar>" using assms by simp
  have v: "\<bar>of_int r * (2::rat) powi k\<bar> = of_int \<bar>r\<bar> * 2 powi k"
    by (simp add: abs_mult)
  have p: "(0::rat) < 2 powi k" by simp
  show ?thesis
  proof (cases "1024 < bitlen \<bar>r\<bar> + k")
    case True
    then have "(2::rat) powi 1024 \<le> 2 powi (bitlen \<bar>r\<bar> - 1 + k)"
      by (intro power_int_increasing) simp_all
    also have "\<dots> = 2 powi (bitlen \<bar>r\<bar> - 1) * 2 powi k"
      by (simp add: power_int_add)
    also have "\<dots> \<le> of_int \<bar>r\<bar> * 2 powi k"
      using bitlen_powi_bounds(1) [OF pos] p by (simp only: mult_le_cancel_right_pos)
    finally show ?thesis using True v by simp
  next
    case False
    have "of_int \<bar>r\<bar> * (2::rat) powi k < 2 powi (bitlen \<bar>r\<bar>) * 2 powi k"
      using bitlen_powi_bounds(2) [OF pos] p by (simp only: mult_less_cancel_right_pos)
    also have "\<dots> = 2 powi (bitlen \<bar>r\<bar> + k)"
      by (simp add: power_int_add)
    also have "\<dots> \<le> 2 powi 1024"
      using False by (intro power_int_increasing) simp_all
    finally show ?thesis using False v by simp
  qed
qed

lemma to_double_code [code]:
  "to_double q =
     (if q = 0 then Fin 0
      else
        (let e = max (- 1022) (floor_log2 \<bar>q\<bar>);
             ulp = 2 powi (e - 52);
             r = round_half_even (q / ulp);
             v = of_int r * ulp
         in if r = 0 then zero_of (q < 0)
            else if 1024 < bitlen \<bar>r\<bar> + (e - 52) then inf_of (q < 0)
            else Fin v))"
  unfolding to_double_def Let_def using overflow_test by auto

subsection \<open>The hit test\<close>

lemma floor_index:
  assumes "num_ge (num_floor x) (Fin 0)" "num_lt (num_floor x) (Fin (of_nat n))"
  shows "\<exists>i<n. num_floor x = Fin (of_nat i) \<or> (i = 0 \<and> num_floor x = NegZero)"
proof (cases x)
  case (Fin a)
  from assms Fin have lo: "0 \<le> \<lfloor>a\<rfloor>" and hi: "\<lfloor>a\<rfloor> < int n"
    by (simp_all add: num_ge_def num_lt_def)
  then have "nat \<lfloor>a\<rfloor> < n" and "(of_int \<lfloor>a\<rfloor> :: rat) = of_nat (nat \<lfloor>a\<rfloor>)"
    by (linarith, simp)
  with Fin show ?thesis by auto
next
  case NegZero
  with assms show ?thesis by (auto simp: num_lt_def)
qed (use assms in \<open>simp_all add: num_ge_def num_lt_def\<close>)

lemma not_lt_le: "\<not> num_lt m c \<Longrightarrow> m \<noteq> NaN \<Longrightarrow> c \<noteq> NaN \<Longrightarrow> num_le c m"
  by (simp add: num_le_def num_ge_def)

lemma not_ge_lt: "\<not> num_ge m c \<Longrightarrow> m \<noteq> NaN \<Longrightarrow> c \<noteq> NaN \<Longrightarrow> num_lt m c"
  by (simp add: num_ge_def)

lemma num_eq_index: "num_eq (Fin (of_nat i)) (Fin (of_nat i))" "num_eq NegZero (Fin 0)"
  by (simp_all add: num_eq_def num_ge_def num_lt_def)

lemma js_index_NegZero: "js_index xs NegZero = js_index xs (Fin 0)"
  by simp

lemma content_NegZero:
  "getContentStart t NegZero = getContentStart t (Fin 0)"
  "getContentEnd t NegZero = getContentEnd t (Fin 0)"
  by (simp_all only: getContentStart_def getContentEnd_def getContentSize_def getLaneStart_def
      getLaneSize_def js_index_NegZero)

lemma inContent_NegZero: "inContent t NegZero m = inContent t (Fin 0) m"
  by (simp only: inContent_def content_NegZero)

lemma hitTest_cases:
  "hitTest t m = Fin (- 1) \<or>
   (\<exists>i<laneCount t. (hitTest t m = Fin (of_nat i) \<or> (i = 0 \<and> hitTest t m = NegZero))
      \<and> m \<noteq> NaN
      \<and> \<not> num_lt m (getContentStart t (hitTest t m))
      \<and> \<not> num_ge m (getContentEnd t (hitTest t m)))"
proof -
  define idx where "idx = num_floor (num_div m (num_div (trackSize t) (Fin (of_nat (laneCount t)))))"
  show ?thesis
  proof (cases "num_ge idx (Fin 0) \<and> num_lt idx (Fin (of_nat (laneCount t)))")
    case False
    then show ?thesis by (auto simp: hitTest_def Let_def idx_def)
  next
    case True
    then obtain i where i: "i < laneCount t" "idx = Fin (of_nat i) \<or> (i = 0 \<and> idx = NegZero)"
      using floor_index unfolding idx_def by blast
    have "m \<noteq> NaN"
    proof
      assume "m = NaN"
      then have "idx = NaN" by (simp add: idx_def num_div_def)
      with i(2) show False by simp
    qed
    show ?thesis
    proof (cases "num_lt m (getContentStart t idx) \<or> num_ge m (getContentEnd t idx)")
      case True
      with \<open>num_ge idx (Fin 0) \<and> num_lt idx (Fin (of_nat (laneCount t)))\<close> show ?thesis
        by (simp add: hitTest_def Let_def idx_def [symmetric])
    next
      case False
      with \<open>num_ge idx (Fin 0) \<and> num_lt idx (Fin (of_nat (laneCount t)))\<close>
      have "hitTest t m = idx"
        by (simp add: hitTest_def Let_def idx_def [symmetric])
      with False i \<open>m \<noteq> NaN\<close> show ?thesis by auto
    qed
  qed
qed

lemma hitTest_index:
  "hitTest t m = Fin (- 1) \<or>
   (\<exists>i<laneCount t. num_eq (hitTest t m) (Fin (of_nat i))
      \<and> getContentStart t (hitTest t m) = getContentStart t (Fin (of_nat i))
      \<and> getContentEnd t (hitTest t m) = getContentEnd t (Fin (of_nat i))
      \<and> m \<noteq> NaN
      \<and> \<not> num_lt m (getContentStart t (hitTest t m))
      \<and> \<not> num_ge m (getContentEnd t (hitTest t m)))"
proof (cases "hitTest t m = Fin (- 1)")
  case False
  with hitTest_cases [of t m] obtain i where i: "i < laneCount t"
      "hitTest t m = Fin (of_nat i) \<or> (i = 0 \<and> hitTest t m = NegZero)" "m \<noteq> NaN"
      "\<not> num_lt m (getContentStart t (hitTest t m))"
      "\<not> num_ge m (getContentEnd t (hitTest t m))"
    by blast
  from i(2) have "num_eq (hitTest t m) (Fin (of_nat i))
      \<and> getContentStart t (hitTest t m) = getContentStart t (Fin (of_nat i))
      \<and> getContentEnd t (hitTest t m) = getContentEnd t (Fin (of_nat i))"
    by (auto simp: num_eq_index content_NegZero)
  with i show ?thesis by blast
qed simp

lemma hitTest_content:
  "hitTest t m = Fin (- 1) \<or>
   (\<exists>i<laneCount t. num_eq (hitTest t m) (Fin (of_nat i)) \<and>
      (getContentStart t (hitTest t m) \<noteq> NaN \<and> getContentEnd t (hitTest t m) \<noteq> NaN
        \<longrightarrow> inContent t (hitTest t m) m))"
  using hitTest_index [of t m]
  by (auto simp: inContent_def intro: not_lt_le not_ge_lt)

lemma hitTest_outside:
  assumes "\<forall>i<laneCount t. getContentStart t (Fin (of_nat i)) \<noteq> NaN
             \<and> getContentEnd t (Fin (of_nat i)) \<noteq> NaN
             \<and> \<not> inContent t (Fin (of_nat i)) m"
  shows "hitTest t m = Fin (- 1)"
proof (rule ccontr)
  assume "hitTest t m \<noteq> Fin (- 1)"
  with hitTest_index [of t m] obtain i where i: "i < laneCount t"
      "getContentStart t (hitTest t m) = getContentStart t (Fin (of_nat i))"
      "getContentEnd t (hitTest t m) = getContentEnd t (Fin (of_nat i))" "m \<noteq> NaN"
      "\<not> num_lt m (getContentStart t (hitTest t m))"
      "\<not> num_ge m (getContentEnd t (hitTest t m))"
    by blast
  from assms i(1) have b: "getContentStart t (Fin (of_nat i)) \<noteq> NaN"
      "getContentEnd t (Fin (of_nat i)) \<noteq> NaN" "\<not> inContent t (Fin (of_nat i)) m"
    by blast+
  from i b(1,2) have "inContent t (Fin (of_nat i)) m"
    by (auto simp: inContent_def intro: not_lt_le not_ge_lt)
  with b(3) show False ..
qed

lemma ex_track_eq:
  "ex_track = \<lparr>laneSizes = [Some (Fin 3), Some (Fin 3), Some (Fin 4)],
     laneStarts = [Some (Fin 0), Some (Fin 3), Some (Fin 6)],
     trackSize = Fin 10, margin = Fin (1 / 2)\<rparr>"
  unfolding ex_track_def by code_simp

lemma ex_track_bounds:
  "getContentStart ex_track (Fin 0) = Fin (1 / 2)" "getContentEnd ex_track (Fin 0) = Fin (5 / 2)"
  "getContentStart ex_track (Fin 1) = Fin (7 / 2)" "getContentEnd ex_track (Fin 1) = Fin (11 / 2)"
  "getContentStart ex_track (Fin 2) = Fin (13 / 2)" "getContentEnd ex_track (Fin 2) = Fin (19 / 2)"
  "laneCount ex_track = 3"
  unfolding ex_track_eq by code_simp+

lemma ex_hits:
  "hitTest ex_track (Fin 1) = Fin 0" "hitTest ex_track (Fin (16 / 5)) = Fin (- 1)"
  "hitTest (set_margin ex_track NaN) (Fin 1) = Fin 0"
  "\<not> inContent (set_margin ex_track NaN) (Fin 0) (Fin 1)"
  "getContentStart (set_margin ex_track NaN) (Fin 0) = NaN"
  unfolding ex_track_eq by code_simp+

lemma ex_margin_misses:
  "\<not> inContent ex_track (Fin 0) (Fin (16 / 5))"
  "\<not> inContent ex_track (Fin 1) (Fin (16 / 5))"
  "\<not> inContent ex_track (Fin 2) (Fin (16 / 5))"
  "inContent ex_track (Fin 0) (Fin 1)"
  unfolding ex_track_eq by code_simp+

lemma init_lanes_step:
  "0 < n \<Longrightarrow> init_lanes n start laneSize =
     (toInt32 start, toInt32 (num_add start laneSize) - toInt32 start)
       # init_lanes (n - 1) (num_add start laneSize) laneSize"
  by (cases n) (simp_all add: Let_def)

lemma hitTest_miss:
  assumes "num_floor (num_div m (num_div (trackSize t) (Fin (of_nat (laneCount t))))) = idx"
      and "num_ge idx (Fin 0)" and "num_lt idx (Fin (of_nat (laneCount t)))"
      and "num_lt m (getContentStart t idx) \<or> num_ge m (getContentEnd t idx)"
  shows "hitTest t m = Fin (- 1)"
  using assms by (simp add: hitTest_def Let_def)

text \<open>
  Examples in which the rounding decides. In \<^verbatim>\<open>init(1, 6)\<close> the sixth sum of the lane size
  stays below 1, so every lane has size 0. In \<^verbatim>\<open>init(8, 6)\<close> the last lane has size 1,
  and pixel 7 falls into index 5 and past the content of that lane. In \<^verbatim>\<open>init(18, 14)\<close>
  with margin 0 the quotient of pixel 9 by the lane size is just below 7: the index is
  6, whose content ends at 9.
\<close>

lemma ex_1_6_arith:
  "num_div (Fin 1) (Fin 6) = Fin (6004799503160661 / 36028797018963968)"
  "num_add (Fin 0) (Fin (6004799503160661 / 36028797018963968))
     = Fin (6004799503160661 / 36028797018963968)"
  "toInt32 (Fin 0) = 0"
  "toInt32 (Fin (6004799503160661 / 36028797018963968)) = 0"
  "num_add (Fin (6004799503160661 / 36028797018963968)) (Fin (6004799503160661 / 36028797018963968))
     = Fin (6004799503160661 / 18014398509481984)"
  "toInt32 (Fin (6004799503160661 / 18014398509481984)) = 0"
  "num_add (Fin (6004799503160661 / 18014398509481984)) (Fin (6004799503160661 / 36028797018963968))
     = Fin (1 / 2)"
  "toInt32 (Fin (1 / 2)) = 0"
  "num_add (Fin (1 / 2)) (Fin (6004799503160661 / 36028797018963968))
     = Fin (6004799503160661 / 9007199254740992)"
  "toInt32 (Fin (6004799503160661 / 9007199254740992)) = 0"
  "num_add (Fin (6004799503160661 / 9007199254740992)) (Fin (6004799503160661 / 36028797018963968))
     = Fin (3752999689475413 / 4503599627370496)"
  "toInt32 (Fin (3752999689475413 / 4503599627370496)) = 0"
  "num_add (Fin (3752999689475413 / 4503599627370496)) (Fin (6004799503160661 / 36028797018963968))
     = Fin (9007199254740991 / 9007199254740992)"
  "toInt32 (Fin (9007199254740991 / 9007199254740992)) = 0"
  by code_simp+

lemma ex_1_6_init:
  "init new_track (Fin 1) (Fin 6) =
     Some \<lparr>laneSizes = [Some (Fin 0), Some (Fin 0), Some (Fin 0), Some (Fin 0), Some (Fin 0),
                    Some (Fin 0)],
       laneStarts = [Some (Fin 0), Some (Fin 0), Some (Fin 0), Some (Fin 0), Some (Fin 0),
                    Some (Fin 0)],
       trackSize = Fin 1, margin = Fin (1 / 2)\<rparr>"
  by (simp add: init_def array_length_def new_track_def init_lanes_step ex_1_6_arith
      del: num_add.simps toInt32.simps)

lemma ex_8_6_arith:
  "num_div (Fin 8) (Fin 6) = Fin (6004799503160661 / 4503599627370496)"
  "num_add (Fin 0) (Fin (6004799503160661 / 4503599627370496))
     = Fin (6004799503160661 / 4503599627370496)"
  "toInt32 (Fin 0) = 0"
  "toInt32 (Fin (6004799503160661 / 4503599627370496)) = 1"
  "num_add (Fin (6004799503160661 / 4503599627370496)) (Fin (6004799503160661 / 4503599627370496))
     = Fin (6004799503160661 / 2251799813685248)"
  "toInt32 (Fin (6004799503160661 / 2251799813685248)) = 2"
  "num_add (Fin (6004799503160661 / 2251799813685248)) (Fin (6004799503160661 / 4503599627370496))
     = Fin 4"
  "toInt32 (Fin 4) = 4"
  "num_add (Fin 4) (Fin (6004799503160661 / 4503599627370496))
     = Fin (6004799503160661 / 1125899906842624)"
  "toInt32 (Fin (6004799503160661 / 1125899906842624)) = 5"
  "num_add (Fin (6004799503160661 / 1125899906842624)) (Fin (6004799503160661 / 4503599627370496))
     = Fin (3752999689475413 / 562949953421312)"
  "toInt32 (Fin (3752999689475413 / 562949953421312)) = 6"
  "num_add (Fin (3752999689475413 / 562949953421312)) (Fin (6004799503160661 / 4503599627370496))
     = Fin (9007199254740991 / 1125899906842624)"
  "toInt32 (Fin (9007199254740991 / 1125899906842624)) = 7"
  by code_simp+

lemma ex_8_6_init:
  "init new_track (Fin 8) (Fin 6) =
     Some \<lparr>laneSizes = [Some (Fin 1), Some (Fin 1), Some (Fin 2), Some (Fin 1), Some (Fin 1),
                    Some (Fin 1)],
       laneStarts = [Some (Fin 0), Some (Fin 1), Some (Fin 2), Some (Fin 4), Some (Fin 5),
                    Some (Fin 6)],
       trackSize = Fin 8, margin = Fin (1 / 2)\<rparr>"
  by (simp add: init_def array_length_def new_track_def init_lanes_step ex_8_6_arith
      del: num_add.simps toInt32.simps)

lemma ex_8_6_hit:
  "hitTest (the (init new_track (Fin 8) (Fin 6))) (Fin 7) = Fin (- 1)"
  unfolding ex_8_6_init option.sel set_margin_def
  by (rule hitTest_miss [where idx = "Fin 5"]; code_simp)

lemma ex_18_14_arith:
  "num_div (Fin 18) (Fin 14) = Fin (5790342378047781 / 4503599627370496)"
  "num_add (Fin 0) (Fin (5790342378047781 / 4503599627370496))
     = Fin (5790342378047781 / 4503599627370496)"
  "toInt32 (Fin 0) = 0"
  "toInt32 (Fin (5790342378047781 / 4503599627370496)) = 1"
  "num_add (Fin (5790342378047781 / 4503599627370496)) (Fin (5790342378047781 / 4503599627370496))
     = Fin (5790342378047781 / 2251799813685248)"
  "toInt32 (Fin (5790342378047781 / 2251799813685248)) = 2"
  "num_add (Fin (5790342378047781 / 2251799813685248)) (Fin (5790342378047781 / 4503599627370496))
     = Fin (1085689195883959 / 281474976710656)"
  "toInt32 (Fin (1085689195883959 / 281474976710656)) = 3"
  "num_add (Fin (1085689195883959 / 281474976710656)) (Fin (5790342378047781 / 4503599627370496))
     = Fin (5790342378047781 / 1125899906842624)"
  "toInt32 (Fin (5790342378047781 / 1125899906842624)) = 5"
  "num_add (Fin (5790342378047781 / 1125899906842624)) (Fin (5790342378047781 / 4503599627370496))
     = Fin (3618963986279863 / 562949953421312)"
  "toInt32 (Fin (3618963986279863 / 562949953421312)) = 6"
  "num_add (Fin (3618963986279863 / 562949953421312)) (Fin (5790342378047781 / 4503599627370496))
     = Fin (8685513567071671 / 1125899906842624)"
  "toInt32 (Fin (8685513567071671 / 1125899906842624)) = 7"
  "num_add (Fin (8685513567071671 / 1125899906842624)) (Fin (5790342378047781 / 4503599627370496))
     = Fin 9"
  "toInt32 (Fin 9) = 9"
  "num_add (Fin 9) (Fin (5790342378047781 / 4503599627370496))
     = Fin (5790342378047781 / 562949953421312)"
  "toInt32 (Fin (5790342378047781 / 562949953421312)) = 10"
  "num_add (Fin (5790342378047781 / 562949953421312)) (Fin (5790342378047781 / 4503599627370496))
     = Fin (3257067587651877 / 281474976710656)"
  "toInt32 (Fin (3257067587651877 / 281474976710656)) = 11"
  "num_add (Fin (3257067587651877 / 281474976710656)) (Fin (5790342378047781 / 4503599627370496))
     = Fin (7237927972559727 / 562949953421312)"
  "toInt32 (Fin (7237927972559727 / 562949953421312)) = 12"
  "num_add (Fin (7237927972559727 / 562949953421312)) (Fin (5790342378047781 / 4503599627370496))
     = Fin (1990430192453925 / 140737488355328)"
  "toInt32 (Fin (1990430192453925 / 140737488355328)) = 14"
  "num_add (Fin (1990430192453925 / 140737488355328)) (Fin (5790342378047781 / 4503599627370496))
     = Fin (8685513567071673 / 562949953421312)"
  "toInt32 (Fin (8685513567071673 / 562949953421312)) = 15"
  "num_add (Fin (8685513567071673 / 562949953421312)) (Fin (5790342378047781 / 4503599627370496))
     = Fin (4704653182163823 / 281474976710656)"
  "toInt32 (Fin (4704653182163823 / 281474976710656)) = 16"
  "num_add (Fin (4704653182163823 / 281474976710656)) (Fin (5790342378047781 / 4503599627370496))
     = Fin (5066549580791809 / 281474976710656)"
  "toInt32 (Fin (5066549580791809 / 281474976710656)) = 18"
  by code_simp+

lemma ex_18_14_init:
  "init new_track (Fin 18) (Fin 14) =
     Some \<lparr>laneSizes = [Some (Fin 1), Some (Fin 1), Some (Fin 1), Some (Fin 2), Some (Fin 1),
                    Some (Fin 1), Some (Fin 2), Some (Fin 1), Some (Fin 1), Some (Fin 1),
                    Some (Fin 2), Some (Fin 1), Some (Fin 1), Some (Fin 2)],
       laneStarts = [Some (Fin 0), Some (Fin 1), Some (Fin 2), Some (Fin 3), Some (Fin 5),
                    Some (Fin 6), Some (Fin 7), Some (Fin 9), Some (Fin 10), Some (Fin 11),
                    Some (Fin 12), Some (Fin 14), Some (Fin 15), Some (Fin 16)],
       trackSize = Fin 18, margin = Fin (1 / 2)\<rparr>"
  by (simp add: init_def array_length_def new_track_def init_lanes_step ex_18_14_arith
      del: num_add.simps toInt32.simps)

lemma ex_18_14_hit:
  "hitTest (set_margin (the (init new_track (Fin 18) (Fin 14))) (Fin 0)) (Fin 9) = Fin (- 1)"
  unfolding ex_18_14_init option.sel set_margin_def
  by (rule hitTest_miss [where idx = "Fin 6"]; code_simp)

section \<open>The tap target of a mouse gesture\<close>

text \<open>
  Claim C1, as amended. On mouseup with no suppression pending and \<^verbatim>\<open>tap\<close> dispatch
  enabled, the stored mousedown path and the mouseup path are trimmed to equal length so
  that they align at the root, and the aligned sequences are walked from the innermost
  index outward, the outermost pair left out; \<^verbatim>\<open>tap\<close> is dispatched once, on the first
  entry that is the same object in both sequences and an element node, and it is not
  dispatched when there is no such entry.
\<close>

theorem mouseup_tap_on_innermost_shared_element:
  assumes "lastTapTarget tr = None" and "onTap tr"
  shows "dispatched_on ''tap'' (effects (snd (on_mouseup E tr g ev)))
           = (case innermost_tap_target (mouseEventPath tr) (composedPath ev) of
                None \<Rightarrow> [] | Some t \<Rightarrow> [t])"
  using assms
  by (simp add: on_mouseup_effects mouseup_tap_target split: list.splits option.splits)

theorem mouseup_tap_witness:
  "lastTapTarget ((new_tracker True True True)\<lparr>mouseEventPath := ex_path\<rparr>) = None
   \<and> onTap ((new_tracker True True True)\<lparr>mouseEventPath := ex_path\<rparr>)
   \<and> dispatched_on ''tap'' (effects (snd (on_mouseup (ex_env False False)
         ((new_tracker True True True)\<lparr>mouseEventPath := ex_path\<rparr>)
         new_globals (ex_mouse ex_path)))) = [ex_div]"
  using mouseup_tap_on_innermost_shared_element
    [of "(new_tracker True True True)\<lparr>mouseEventPath := ex_path\<rparr>"
        "ex_env False False" new_globals "ex_mouse ex_path"]
  by (simp add: new_tracker_def ex_mouse_def innermost_example)

text \<open>
  The walk of the specification, from the outermost index inward, ends on the body for
  a press and release on the \<^verbatim>\<open>div\<close>; the listener dispatches \<^verbatim>\<open>tap\<close> on the \<^verbatim>\<open>div\<close>. And the
  entry that the reconciliation removes from a longer path is its innermost one.
\<close>

theorem mouseup_outermost_counterexample:
  "dispatched_on ''tap'' (effects (snd (on_mouseup (ex_env False False)
         ((new_tracker True True True)\<lparr>mouseEventPath := ex_path\<rparr>)
         new_globals (ex_mouse ex_path)))) = [ex_div]
   \<and> spec_tap_target ex_path ex_path = Some ex_body
   \<and> ex_div \<noteq> ex_body
   \<and> reconcile_mouse [ex_div, ex_body, ex_window] [ex_body, ex_window]
       = ([ex_body, ex_window], [ex_body, ex_window])"
proof -
  have "spec_tap_target ex_path ex_path = Some ex_body"
    by (simp add: spec_tap_target_def aligned_def shared_element_def ex_path_def ex_div_def
        ex_body_def ex_window_def ELEMENT_NODE_def)
  moreover have "ex_div \<noteq> ex_body"
    by (simp add: ex_div_def ex_body_def)
  moreover have "reconcile_mouse [ex_div, ex_body, ex_window] [ex_body, ex_window]
       = ([ex_body, ex_window], [ex_body, ex_window])"
    by (simp add: reconcile_mouse_def)
  ultimately show ?thesis
    by (simp add: on_mouseup_effects mouseup_tap_target innermost_example new_tracker_def
        ex_mouse_def split: list.splits)
qed

section \<open>Touch suppresses the mouse tap\<close>


section \<open>Cancellation goes back to the native event\<close>

text \<open>
  Claim C3, as amended. For every synthetic event that a listener dispatches from a
  native mouse event (\<^verbatim>\<open>tapstart\<close> on mousedown, \<^verbatim>\<open>tapend\<close> and \<^verbatim>\<open>tap\<close> on mouseup, \<^verbatim>\<open>tap\<close> on
  click): if a listener of the page prevents the default of the synthetic event, then
  the default of the native event is prevented, inside the same call of the listener.
  The touch listeners pass the touch point, which is no event, so they never prevent
  the default of a native event.
\<close>

theorem native_default_prevented_for_mouse_sources:
  "(\<forall>t e. Dispatched t e \<in> set (effects (snd (on_mousedown E tr g ev))) \<and> prevents E t e
       \<longrightarrow> prevented_mouse ev (effects (snd (on_mousedown E tr g ev))))
   \<and> (\<forall>t e. Dispatched t e \<in> set (effects (snd (on_mouseup E tr g ev))) \<and> prevents E t e
       \<longrightarrow> prevented_mouse ev (effects (snd (on_mouseup E tr g ev))))
   \<and> (\<forall>t e. Dispatched t e \<in> set (effects (snd (on_click E tr g ev))) \<and> prevents E t e
       \<longrightarrow> prevented_mouse ev (effects (snd (on_click E tr g ev))))
   \<and> \<not> native_prevented (effects (snd (on_touchstart E tr g tev)))
   \<and> \<not> native_prevented (effects (snd (on_touchend E tr g tev)))"
  using synthetic_prevented_mem [of _ _ _ E] mousedown_cancel [of E tr g ev]
    mouseup_cancel [of E tr g ev] click_cancel [of E tr g ev]
    touchstart_no_cancel [of E tr g tev] touchend_no_cancel [of E tr g tev]
  by blast

theorem native_default_prevented_witness:
  "Dispatched ex_div (tap_of_mouse ''tapstart'' (ex_mouse ex_path))
     \<in> set (effects (snd (on_mousedown (ex_env False True) ex_pressed new_globals (ex_mouse ex_path))))
   \<and> Dispatched ex_div (tap_of_mouse ''tapend'' (ex_mouse ex_path))
     \<in> set (effects (snd (on_mouseup (ex_env False True) ex_pressed new_globals (ex_mouse ex_path))))
   \<and> Dispatched ex_div (tap_of_mouse ''tap'' (ex_mouse ex_path))
     \<in> set (effects (snd (on_mouseup (ex_env False True) ex_pressed new_globals (ex_mouse ex_path))))
   \<and> Dispatched ex_div (tap_of_mouse ''tap'' (ex_mouse ex_path))
     \<in> set (effects (snd (on_click (ex_env False True) ex_pressed new_globals (ex_mouse ex_path))))
   \<and> prevents (ex_env False True) ex_div (tap_of_mouse ''tapstart'' (ex_mouse ex_path))
   \<and> prevents (ex_env False True) ex_div (tap_of_mouse ''tapend'' (ex_mouse ex_path))
   \<and> prevents (ex_env False True) ex_div (tap_of_mouse ''tap'' (ex_mouse ex_path))
   \<and> prevented_mouse (ex_mouse ex_path)
       (effects (snd (on_mousedown (ex_env False True) ex_pressed new_globals (ex_mouse ex_path))))
   \<and> prevented_mouse (ex_mouse ex_path)
       (effects (snd (on_mouseup (ex_env False True) ex_pressed new_globals (ex_mouse ex_path))))
   \<and> prevented_mouse (ex_mouse ex_path)
       (effects (snd (on_click (ex_env False True) ex_pressed new_globals (ex_mouse ex_path))))"
proof -
  let ?E = "ex_env False True"
  note inst = native_default_prevented_for_mouse_sources
    [where E = ?E and tr = ex_pressed and g = new_globals and ev = "ex_mouse ex_path"
       and tev = "ex_touchEvent [ex_touch 7] ex_path"]
  have ie: "isIE ?E = False" by (simp add: ex_env_def)
  have p: "prevents ?E t e" for t e by (simp add: ex_env_def)
  have m1: "Dispatched ex_div (tap_of_mouse ''tapstart'' (ex_mouse ex_path))
     \<in> set (effects (snd (on_mousedown ?E ex_pressed new_globals (ex_mouse ex_path))))"
    by (simp add: ex_pressed_effects mouse_dispatch_def)
  have m2: "Dispatched ex_div (tap_of_mouse ''tapend'' (ex_mouse ex_path))
     \<in> set (effects (snd (on_mouseup ?E ex_pressed new_globals (ex_mouse ex_path))))"
    by (simp add: ex_pressed_effects mouse_dispatch_def)
  have m3: "Dispatched ex_div (tap_of_mouse ''tap'' (ex_mouse ex_path))
     \<in> set (effects (snd (on_mouseup ?E ex_pressed new_globals (ex_mouse ex_path))))"
    by (simp add: ex_pressed_effects mouse_dispatch_def)
  have m4: "Dispatched ex_div (tap_of_mouse ''tap'' (ex_mouse ex_path))
     \<in> set (effects (snd (on_click ?E ex_pressed new_globals (ex_mouse ex_path))))"
    by (simp add: ex_pressed_effects(3) [OF ie] mouse_dispatch_def)
  from inst m1 p have c1: "prevented_mouse (ex_mouse ex_path)
       (effects (snd (on_mousedown ?E ex_pressed new_globals (ex_mouse ex_path))))"
    by blast
  from inst m3 p have c2: "prevented_mouse (ex_mouse ex_path)
       (effects (snd (on_mouseup ?E ex_pressed new_globals (ex_mouse ex_path))))"
    by blast
  from inst m4 p have c3: "prevented_mouse (ex_mouse ex_path)
       (effects (snd (on_click ?E ex_pressed new_globals (ex_mouse ex_path))))"
    by blast
  from m1 m2 m3 m4 p c1 c2 c3 show ?thesis by blast
qed

text \<open>
  A touch tap on the \<^verbatim>\<open>div\<close> whose \<^verbatim>\<open>tap\<close> a listener cancels: nothing is prevented on the
  native side.
\<close>

theorem touch_cancel_counterexample:
  "dispatched_on ''tap'' (effects (snd (on_touchend (ex_env False True)
       ((new_tracker True True True)\<lparr>touchEventPath := ex_path, currentTouch := 7\<rparr>) new_globals
       (ex_touchEvent [ex_touch 7] ex_path)))) = [ex_div]
   \<and> synthetic_prevented (ex_env False True) (effects (snd (on_touchend (ex_env False True)
       ((new_tracker True True True)\<lparr>touchEventPath := ex_path, currentTouch := 7\<rparr>) new_globals
       (ex_touchEvent [ex_touch 7] ex_path))))
   \<and> \<not> native_prevented (effects (snd (on_touchend (ex_env False True)
       ((new_tracker True True True)\<lparr>touchEventPath := ex_path, currentTouch := 7\<rparr>) new_globals
       (ex_touchEvent [ex_touch 7] ex_path))))"
  by (simp add: on_touchend_effects ex_touchEvent_def new_tracker_def reconcile_touch_def
      ex_path_cons ex_touch_def ex_env_def)

section \<open>The two reconciliations\<close>

text \<open>
  Claim C4, as amended. The reconciliation on touchend trims the current path exactly
  as the reconciliation on mouseup does and leaves the stored path as it is; the one on
  mouseup trims whichever path is longer. The two agree exactly when the stored path is
  not the longer one.
\<close>

theorem reconcile_touch_trims_current_only:
  "reconcile_touch stored path = (stored, snd (reconcile_mouse stored path))
   \<and> reconcile_mouse stored path
       = (drop (length stored - length path) stored, drop (length path - length stored) path)
   \<and> (reconcile_touch stored path = reconcile_mouse stored path) = (length stored \<le> length path)"
proof -
  have "drop (length stored - length path) stored \<noteq> stored" if "length path < length stored"
  proof
    assume "drop (length stored - length path) stored = stored"
    then have "length (drop (length stored - length path) stored) = length stored" by simp
    with that show False by simp
  qed
  then show ?thesis
    by (auto simp: reconcile_touch_def reconcile_mouse_def)
qed

text \<open>With the stored path the longer one, only the mouse reconciliation trims it.\<close>

theorem reconcile_touch_counterexample:
  "reconcile_touch [ex_div, ex_body] [ex_body] = ([ex_div, ex_body], [ex_body])
   \<and> reconcile_mouse [ex_div, ex_body] [ex_body] = ([ex_body], [ex_body])
   \<and> reconcile_touch [ex_div, ex_body] [ex_body] \<noteq> reconcile_mouse [ex_div, ex_body] [ex_body]"
  by (simp add: reconcile_touch_def reconcile_mouse_def)

section \<open>Cleanup on touchend\<close>

text \<open>
  Claim C5, as amended. After every touchend, whatever its touch data, \<^verbatim>\<open>currentTouch\<close>
  is \<open>-1\<close>. The fault of a touchend without a touch point is not absorbed: an exception
  leaves the listener, after the reset, exactly when \<^verbatim>\<open>changedTouches\<close> is missing, or is
  empty while the reconciled path is not.
\<close>

theorem touchend_resets_currentTouch:
  "currentTouch (fst (on_touchend E tr g ev)) = - 1
   \<and> thrown (snd (on_touchend E tr g ev))
       = (changedTouches ev = None
          \<or> changedTouches ev = Some []
            \<and> snd (reconcile_touch (touchEventPath tr) (composedPath ev)) \<noteq> [])"
  by (simp add: on_touchend_currentTouch on_touchend_thrown)

text \<open>
  A touchend on the \<^verbatim>\<open>div\<close> with no touch point, and one without \<^verbatim>\<open>changedTouches\<close>: the
  exception leaves the listener.
\<close>

theorem touchend_exception_counterexample:
  "thrown (snd (on_touchend (ex_env False False)
       ((new_tracker True True True)\<lparr>touchEventPath := ex_path, currentTouch := 7\<rparr>) new_globals
       (ex_touchEvent [] ex_path)))
   \<and> currentTouch (fst (on_touchend (ex_env False False)
       ((new_tracker True True True)\<lparr>touchEventPath := ex_path, currentTouch := 7\<rparr>) new_globals
       (ex_touchEvent [] ex_path))) = - 1
   \<and> thrown (snd (on_touchend (ex_env False False)
       ((new_tracker True True True)\<lparr>touchEventPath := ex_path, currentTouch := 7\<rparr>) new_globals
       ((ex_touchEvent [] ex_path)\<lparr>changedTouches := None\<rparr>)))"
  by (simp add: on_touchend_currentTouch on_touchend_thrown ex_touchEvent_def new_tracker_def
      reconcile_touch_def ex_path_def)

section \<open>A move cancels the tap\<close>

text \<open>
  Claim C6, as amended. The touchmove listener sets \<^verbatim>\<open>currentTouch\<close> to \<open>-1\<close> whatever the
  state. For every sequence touchstart, touchmove, touchend on the same element, with
  \<^verbatim>\<open>tapstart\<close> and \<^verbatim>\<open>tapend\<close> dispatch enabled and the identifier of the ending touch other
  than \<open>-1\<close>, the events dispatched are \<^verbatim>\<open>tapstart\<close> and \<^verbatim>\<open>tapend\<close> and no \<^verbatim>\<open>tap\<close>.
\<close>

theorem touchmove_cancels_tap:
  assumes t1: "changedTouches e1 = Some (u1 # us1)"
      and t3: "changedTouches e3 = Some (u3 # us3)"
      and id: "touch_identifier u3 \<noteq> - 1"
      and p1: "composedPath e1 = el # rest1"
      and p3: "composedPath e3 = el # rest3"
      and flags: "onTapStart tr" "onTapEnd tr"
  shows "currentTouch (fst (on_touchmove E tr' g' e2)) = - 1
         \<and> dispatched_types (effects (snd (fire_all E [TouchStart e1, TouchMove e2, TouchEnd e3] [tr] g)))
             = [''tapstart'', ''tapend'']"
proof -
  let ?tr1 = "fst (on_touchstart E tr g e1)"
  let ?tr2 = "fst (on_touchmove E ?tr1 (glob (snd (on_touchstart E tr g e1))) e2)"
  have tr2: "touchEventPath ?tr2 = el # rest1" "currentTouch ?tr2 = - 1"
            "onTapEnd ?tr2" 
    using flags p1 by (simp_all add: on_touchstart_tracker [OF t1] on_touchmove_tracker)
  have ne: "snd (reconcile_touch (el # rest1) (el # rest3)) \<noteq> []"
    by (rule reconcile_touch_nonempty) simp_all
  have start: "dispatched_types (effects (snd (on_touchstart E tr g e1))) = [''tapstart'']"
    using t1 p1 flags by (simp add: on_touchstart_effects)
  have "dispatched_types (effects (snd (on_touchend E ?tr2 g'' e3))) = [''tapend'']" for g''
    using ne t3 id tr2 p3 by (simp add: on_touchend_effects split: list.splits)
  with start show ?thesis
    by (simp add: fire_all_effects fire_single on_touchmove_tracker on_touchmove_effects
        del: fire.simps fire_all.simps)
qed

theorem touchmove_cancels_tap_witness:
  "changedTouches (ex_touchEvent [ex_touch 7] ex_path) = Some [ex_touch 7]
   \<and> touch_identifier (ex_touch 7) \<noteq> - 1
   \<and> composedPath (ex_touchEvent [ex_touch 7] ex_path) = ex_div # [ex_body, ex_window]
   \<and> onTapStart (new_tracker True True True) \<and> onTapEnd (new_tracker True True True)
   \<and> dispatched_types (effects (snd (fire_all (ex_env False False)
         [TouchStart (ex_touchEvent [ex_touch 7] ex_path),
          TouchMove (ex_touchEvent [ex_touch 7] ex_path),
          TouchEnd (ex_touchEvent [ex_touch 7] ex_path)]
         [new_tracker True True True] new_globals)))
       = [''tapstart'', ''tapend'']"
  using touchmove_cancels_tap
    [of "ex_touchEvent [ex_touch 7] ex_path" "ex_touch 7" "[]"
        "ex_touchEvent [ex_touch 7] ex_path" "ex_touch 7" "[]"
        ex_div "[ex_body, ex_window]" "[ex_body, ex_window]" "new_tracker True True True"
        "ex_env False False" "new_tracker True True True" new_globals
        "ex_touchEvent [ex_touch 7] ex_path" new_globals]
  by (simp add: ex_touchEvent_def ex_touch_def ex_path_def new_tracker_def)

text \<open>
  With the identifier \<open>-1\<close> the ending touch still equals \<^verbatim>\<open>currentTouch\<close> after the move and
  \<^verbatim>\<open>tap\<close> is dispatched; with \<^verbatim>\<open>tapstart\<close> claimed by another installation no \<^verbatim>\<open>tapstart\<close> is.
\<close>

theorem touchmove_sentinel_counterexample:
  "dispatched_types (effects (snd (fire_all (ex_env False False)
         [TouchStart (ex_touchEvent [ex_touch (- 1)] ex_path),
          TouchMove (ex_touchEvent [ex_touch (- 1)] ex_path),
          TouchEnd (ex_touchEvent [ex_touch (- 1)] ex_path)]
         [new_tracker True True True] new_globals)))
       = [''tapstart'', ''tapend'', ''tap'']
   \<and> dispatched_types (effects (snd (fire_all (ex_env False False)
         [TouchStart (ex_touchEvent [ex_touch 7] ex_path),
          TouchMove (ex_touchEvent [ex_touch 7] ex_path),
          TouchEnd (ex_touchEvent [ex_touch 7] ex_path)]
         [new_tracker True True False] new_globals)))
       = [''tapend'']"
  by code_simp

section \<open>Installing twice\<close>

text \<open>
  Claim C7. The first installation on a fresh target adds one set of listeners, with
  all three gesture types enabled, and leaves all three properties present. An
  installation enables a gesture type only when its property is absent, and installs
  nothing when all three are present, so a second installation changes nothing. An
  installation dispatches no event of a type it has not enabled: the type is enabled or
  nothing of it is dispatched, whatever the native event. After two
  installations on a fresh target, a press and release of the mouse on an element
  dispatches \<^verbatim>\<open>tap\<close> exactly once, on that element.
\<close>

theorem install_idempotent:
  assumes dn: "composedPath dn = el # rest" "target dn \<noteq> None"
      and up: "composedPath up = el # rest"
      and el: "nodeType el = Some ELEMENT_NODE" "rest \<noteq> []"
  shows "applyEvent fresh_target
           = \<lparr>ontap = True, ontapstart = True, ontapend = True,
              installed = [new_tracker True True True]\<rparr>
         \<and> applyEvent tgt =
             (if ontap tgt \<and> ontapend tgt \<and> ontapstart tgt then tgt
              else tgt\<lparr>installed := installed tgt
                          @ [new_tracker (\<not> ontap tgt) (\<not> ontapend tgt) (\<not> ontapstart tgt)],
                       ontap := True, ontapstart := True, ontapend := True\<rparr>)
         \<and> applyEvent (applyEvent tgt) = applyEvent tgt
         \<and> (onTap tr \<or> dispatched_on ''tap'' (effects (snd (fire E ev [tr] g))) = [])
         \<and> (onTapStart tr \<or> dispatched_on ''tapstart'' (effects (snd (fire E ev [tr] g))) = [])
         \<and> (onTapEnd tr \<or> dispatched_on ''tapend'' (effects (snd (fire E ev [tr] g))) = [])
         \<and> dispatched_on ''tap'' (effects (snd (fire_all E [MouseDown dn, MouseUp up]
               (installed (applyEvent (applyEvent fresh_target))) g))) = [el]"
proof -
  have "dispatched_on ''tap'' (effects (snd (fire_all E [MouseDown dn, MouseUp up]
               (installed (applyEvent (applyEvent fresh_target))) g))) = [el]"
    by (simp only: applyEvent_twice)
       (simp add: applyEvent_fresh mouse_tap_single [OF assms] del: fire.simps fire_all.simps)
  then show ?thesis
    using applyEvent_fresh applyEvent_unfolded [of tgt] applyEvent_twice [of tgt]
      gate_fire [where E = E and ev = ev and tr = tr and g = g]
    by (simp del: fire.simps fire_all.simps)
qed

theorem install_idempotent_witness:
  "composedPath (ex_mouse ex_path) = ex_div # [ex_body, ex_window]
   \<and> target (ex_mouse ex_path) \<noteq> None
   \<and> nodeType ex_div = Some ELEMENT_NODE
   \<and> [ex_body, ex_window] \<noteq> []
   \<and> dispatched_on ''tap'' (effects (snd (fire_all (ex_env False False)
         [MouseDown (ex_mouse ex_path), MouseUp (ex_mouse ex_path)]
         (installed (applyEvent (applyEvent fresh_target))) new_globals))) = [ex_div]"
proof -
  have path: "composedPath (ex_mouse ex_path) = ex_div # [ex_body, ex_window]"
    and tgt: "target (ex_mouse ex_path) \<noteq> None"
    and el: "nodeType ex_div = Some ELEMENT_NODE"
    and rest: "[ex_body, ex_window] \<noteq> []"
    by (simp_all add: ex_mouse_def ex_path_def ex_div_def elem_at_def)
  from install_idempotent
    [OF path tgt path el rest, where tgt = fresh_target and E = "ex_env False False"
       and ev = "MouseDown (ex_mouse ex_path)" and tr = "new_tracker True True True"
       and g = new_globals]
  have "dispatched_on ''tap'' (effects (snd (fire_all (ex_env False False)
         [MouseDown (ex_mouse ex_path), MouseUp (ex_mouse ex_path)]
         (installed (applyEvent (applyEvent fresh_target))) new_globals))) = [ex_div]"
    by (elim conjE)
  with path tgt el rest show ?thesis
    by (intro conjI)
qed

section \<open>Keyboard activation\<close>

text \<open>
  Claim C8, as amended. For every keyup of Enter or Space whose innermost target is an
  HTML element matching \<^verbatim>\<open>[role=button]\<close>: when the element matches a natively activatable
  selector the listener does nothing; otherwise it prevents the default of the key
  event and clicks the element, and what follows is what the click listener does with
  the click event of the platform. That is exactly one \<^verbatim>\<open>tap\<close> when \<^verbatim>\<open>tap\<close> dispatch is
  enabled, the click has detail 0 and a path, and it is not a pointer event on the
  legacy engine; it is no \<^verbatim>\<open>tap\<close> otherwise.
\<close>

theorem keyup_activates_role_button:
  assumes k: "key ev = ''Enter'' \<or> key ev = '' '' \<or> key ev = ''Spacebar''"
      and path: "composedPath ev = el # rest"
      and html: "isHTMLElement el"
      and role: "matches E el ''[role=button]''"
  shows "effects (snd (fire E (KeyUp ev) [tr] g))
           = (if matches E el ''button,a,input[type=button],input[type=submit]'' then []
              else PreventedKey ev # effects (snd (on_click E tr g (click E el))))
         \<and> length (dispatched_on ''tap'' (effects (snd (fire E (KeyUp ev) [tr] g))))
           = (if \<not> matches E el ''button,a,input[type=button],input[type=submit]''
                 \<and> onTap tr \<and> detail (click E el) = 0
                 \<and> \<not> (isIE E \<and> isPointerEvent (click E el))
                 \<and> composedPath (click E el) \<noteq> []
              then 1 else 0)"
proof -
  have eff: "effects (snd (fire E (KeyUp ev) [tr] g))
           = (if matches E el ''button,a,input[type=button],input[type=submit]'' then []
              else PreventedKey ev # effects (snd (on_click E tr g (click E el))))"
    using k path html role
    by (auto simp: fire_keyup_single onEnterOrSpacebar_single simp del: fire.simps)
  show ?thesis
    unfolding eff using click_tap_count [of E tr g "click E el"]
    by (auto split: if_splits)
qed

theorem keyup_activates_role_button_witness:
  "(key (ex_key ''Enter'' ex_path) = ''Enter'' \<or> key (ex_key ''Enter'' ex_path) = '' ''
      \<or> key (ex_key ''Enter'' ex_path) = ''Spacebar'')
   \<and> composedPath (ex_key ''Enter'' ex_path) = ex_div # [ex_body, ex_window]
   \<and> isHTMLElement ex_div
   \<and> matches (ex_env False False) ex_div ''[role=button]''
   \<and> native_prevented (effects (snd (fire (ex_env False False) (KeyUp (ex_key ''Enter'' ex_path))
         [new_tracker True True True] new_globals)))
   \<and> dispatched_on ''tap'' (effects (snd (fire (ex_env False False) (KeyUp (ex_key ''Enter'' ex_path))
         [new_tracker True True True] new_globals))) = [ex_div]"
proof -
  have k: "key (ex_key ''Enter'' ex_path) = ''Enter'' \<or> key (ex_key ''Enter'' ex_path) = '' ''
      \<or> key (ex_key ''Enter'' ex_path) = ''Spacebar''"
    and path: "composedPath (ex_key ''Enter'' ex_path) = ex_div # [ex_body, ex_window]"
    and html: "isHTMLElement ex_div"
    and role: "matches (ex_env False False) ex_div ''[role=button]''"
    by (simp_all add: ex_key_def ex_path_def ex_div_def ex_env_def)
  have native: "\<not> matches (ex_env False False) ex_div ''button,a,input[type=button],input[type=submit]''"
    by (simp add: ex_env_def)
  have click: "effects (snd (on_click (ex_env False False) (new_tracker True True True) new_globals
                  (click (ex_env False False) ex_div)))
               = mouse_dispatch (ex_env False False) ''tap'' ex_div (click (ex_env False False) ex_div)"
    by (simp add: on_click_effects isButtonEnterOrSpace_def ex_env_def ex_mouse_def new_tracker_def)
  from keyup_activates_role_button [OF k path html role, of "new_tracker True True True" new_globals]
  have "effects (snd (fire (ex_env False False) (KeyUp (ex_key ''Enter'' ex_path))
         [new_tracker True True True] new_globals))
        = PreventedKey (ex_key ''Enter'' ex_path)
          # mouse_dispatch (ex_env False False) ''tap'' ex_div (click (ex_env False False) ex_div)"
    using native click by simp
  then have "native_prevented (effects (snd (fire (ex_env False False) (KeyUp (ex_key ''Enter'' ex_path))
         [new_tracker True True True] new_globals)))"
    and "dispatched_on ''tap'' (effects (snd (fire (ex_env False False) (KeyUp (ex_key ''Enter'' ex_path))
         [new_tracker True True True] new_globals))) = [ex_div]"
    by simp_all
  with k path html role show ?thesis
    by (intro conjI)
qed

text \<open>
  Enter on the \<^verbatim>\<open>div\<close> with the role of a button: no \<^verbatim>\<open>tap\<close> on the legacy engine, where the
  click is a pointer event, and none when \<^verbatim>\<open>tap\<close> dispatch is not enabled.
\<close>

theorem keyup_no_tap_counterexample:
  "dispatched_on ''tap'' (effects (snd (fire (ex_env True False) (KeyUp (ex_key ''Enter'' ex_path))
         [new_tracker True True True] new_globals))) = []
   \<and> dispatched_on ''tap'' (effects (snd (fire (ex_env False False) (KeyUp (ex_key ''Enter'' ex_path))
         [new_tracker False True True] new_globals))) = []
   \<and> isHTMLElement ex_div
   \<and> matches (ex_env True False) ex_div ''[role=button]''
   \<and> \<not> matches (ex_env True False) ex_div ''button,a,input[type=button],input[type=submit]''"
  by code_simp

section \<open>The click listener has no guard on its target\<close>

text \<open>
  Claim C9. For a click of detail 0 that is not a pointer event on the legacy engine,
  with \<^verbatim>\<open>tap\<close> dispatch enabled and an empty composed path, the click listener calls the
  dispatch routine with a target that is not there, and the call raises. The mousedown,
  mouseup, touchstart and touchend listeners never call it without a target.
\<close>

theorem click_dispatches_without_target_guard:
  "(detail ev = 0 \<and> \<not> (isIE E \<and> isPointerEvent ev) \<and> onTap tr \<and> composedPath ev = []
      \<longrightarrow> called_targets (effects (snd (on_click E tr g ev))) = [None]
          \<and> thrown (snd (on_click E tr g ev)))
   \<and> \<not> called_without_target (effects (snd (on_mousedown E tr g ev')))
   \<and> \<not> called_without_target (effects (snd (on_mouseup E tr g ev')))
   \<and> \<not> called_without_target (effects (snd (on_touchstart E tr g tev)))
   \<and> \<not> called_without_target (effects (snd (on_touchend E tr g tev)))"
proof -
  have "\<not> called_without_target (effects (snd (on_mousedown E tr g ev')))"
    by (simp add: on_mousedown_effects split: list.splits)
  moreover have "\<not> called_without_target (effects (snd (on_mouseup E tr g ev')))"
    by (simp add: on_mouseup_effects split: list.splits option.splits)
  moreover have "\<not> called_without_target (effects (snd (on_touchstart E tr g tev)))"
    by (simp add: on_touchstart_effects split: list.splits option.splits)
  moreover have "\<not> called_without_target (effects (snd (on_touchend E tr g tev)))"
    by (simp add: on_touchend_effects split: list.splits option.splits)
  ultimately show ?thesis
    by (simp add: on_click_effects on_click_thrown isButtonEnterOrSpace_def)
qed

theorem click_dispatches_without_target_guard_witness:
  "detail (ex_mouse []) = 0
   \<and> \<not> (isIE (ex_env False False) \<and> isPointerEvent (ex_mouse []))
   \<and> onTap (new_tracker True True True)
   \<and> composedPath (ex_mouse []) = []
   \<and> called_targets (effects (snd (on_click (ex_env False False) (new_tracker True True True)
        new_globals (ex_mouse [])))) = [None]
   \<and> thrown (snd (on_click (ex_env False False) (new_tracker True True True)
        new_globals (ex_mouse [])))"
  using click_dispatches_without_target_guard [of "ex_mouse []" "ex_env False False" "new_tracker True True True" new_globals]
  by (simp add: ex_mouse_def ex_env_def new_tracker_def)

section \<open>The hit test\<close>

text \<open>
  Claim C10, as amended. For every track and every pixel position the hit test returns
  \<open>-1\<close> or a number equal to the index of a lane, at least 0 and below the lane count.
  When the content start and the content end of that lane are numbers (not \<^verbatim>\<open>NaN\<close>), the
  position lies in the content region of the lane. When all lanes have such bounds, a
  position outside every content region, in a margin or outside the track, gives \<open>-1\<close>.
  The arithmetic of the hit test and of the content bounds is that of doubles.
\<close>

theorem hitTest_hits_content_only:
  "(hitTest t m = Fin (- 1) \<or>
    (\<exists>i<laneCount t. num_eq (hitTest t m) (Fin (of_nat i)) \<and>
       (getContentStart t (hitTest t m) \<noteq> NaN \<and> getContentEnd t (hitTest t m) \<noteq> NaN
         \<longrightarrow> inContent t (hitTest t m) m)))
   \<and> ((\<forall>i<laneCount t. getContentStart t (Fin (of_nat i)) \<noteq> NaN
                        \<and> getContentEnd t (Fin (of_nat i)) \<noteq> NaN
                        \<and> \<not> inContent t (Fin (of_nat i)) m')
        \<longrightarrow> hitTest t m' = Fin (- 1))"
  using hitTest_content [of t m] hitTest_outside [of t m'] by blast

theorem hitTest_witness:
  "getContentStart ex_track (Fin 0) \<noteq> NaN \<and> getContentEnd ex_track (Fin 0) \<noteq> NaN
   \<and> hitTest ex_track (Fin 1) = Fin 0 \<and> inContent ex_track (Fin 0) (Fin 1)
   \<and> getContentStart ex_track (Fin 1) \<noteq> NaN \<and> getContentEnd ex_track (Fin 1) \<noteq> NaN
   \<and> getContentStart ex_track (Fin 2) \<noteq> NaN \<and> getContentEnd ex_track (Fin 2) \<noteq> NaN
   \<and> \<not> inContent ex_track (Fin 0) (Fin (16 / 5))
   \<and> \<not> inContent ex_track (Fin 1) (Fin (16 / 5))
   \<and> \<not> inContent ex_track (Fin 2) (Fin (16 / 5))
   \<and> hitTest ex_track (Fin (16 / 5)) = Fin (- 1)"
proof -
  note inst = hitTest_hits_content_only [of ex_track "Fin 1" "Fin (16 / 5)"]
  have all: "\<forall>i<laneCount ex_track.
      getContentStart ex_track (Fin (of_nat i)) \<noteq> NaN
      \<and> getContentEnd ex_track (Fin (of_nat i)) \<noteq> NaN
      \<and> \<not> inContent ex_track (Fin (of_nat i)) (Fin (16 / 5))"
  proof (intro allI impI)
    fix i assume "i < laneCount ex_track"
    then have "i = 0 \<or> i = 1 \<or> i = 2"
      by (auto simp: ex_track_bounds)
    then show "getContentStart ex_track (Fin (of_nat i)) \<noteq> NaN
      \<and> getContentEnd ex_track (Fin (of_nat i)) \<noteq> NaN
      \<and> \<not> inContent ex_track (Fin (of_nat i)) (Fin (16 / 5))"
      using ex_margin_misses by (auto simp: ex_track_bounds)
  qed
  with inst have miss: "hitTest ex_track (Fin (16 / 5)) = Fin (- 1)"
    by blast
  from inst have "hitTest ex_track (Fin 1) = Fin (- 1) \<or>
    (\<exists>i<laneCount ex_track. num_eq (hitTest ex_track (Fin 1)) (Fin (of_nat i)) \<and>
       (getContentStart ex_track (hitTest ex_track (Fin 1)) \<noteq> NaN
        \<and> getContentEnd ex_track (hitTest ex_track (Fin 1)) \<noteq> NaN
         \<longrightarrow> inContent ex_track (hitTest ex_track (Fin 1)) (Fin 1)))"
    by (rule conjunct1)
  then have hit: "inContent ex_track (Fin 0) (Fin 1)"
    by (auto simp: ex_hits ex_track_bounds)
  from hit miss show ?thesis
    using ex_margin_misses by (simp add: ex_hits ex_track_bounds)
qed

text \<open>
  With the margin set to \<^verbatim>\<open>NaN\<close> both comparisons of the hit test are false: position 1 is
  reported in lane 0, whose content start is \<^verbatim>\<open>NaN\<close>.
\<close>

theorem hitTest_nan_counterexample:
  "hitTest (set_margin ex_track NaN) (Fin 1) = Fin 0
   \<and> getContentStart (set_margin ex_track NaN) (Fin 0) = NaN
   \<and> \<not> num_le (getContentStart (set_margin ex_track NaN) (Fin 0)) (Fin 1)
   \<and> \<not> inContent (set_margin ex_track NaN) (Fin 0) (Fin 1)"
  unfolding ex_track_eq by code_simp

end
